theory Spec2Isabelle
  imports Main "HOL-Library.AList"
begin

section \<open>build-webrtc.py: a shallow embedding\<close>

text \<open>
  The script sequences file-system operations and external commands. The embedding
  keeps its own code (constants, command construction, \<open>sh\<close>, \<open>mkdirp\<close>, \<open>rmr\<close>,
  \<open>setup\<close> (here \<open>setup_action\<close>), \<open>sync\<close>, \<open>build\<close> and the main block) as HOL
  functions. What the script
  calls but does not define (the \<open>os\<close>, \<open>shutil\<close> and \<open>subprocess\<close> functions) is a
  parameter: a record \<open>'w os_api\<close> of functions over an arbitrary world \<open>'w\<close>. Every
  effect of a run is appended to a trace, so that a statement such as "no external
  command was invoked" is a statement about that trace.
\<close>

subsection \<open>Strings\<close>

text \<open>\<open>sep.join(xs)\<close>.\<close>

fun str_join :: "string \<Rightarrow> string list \<Rightarrow> string" where
  "str_join sep [] = []"
| "str_join sep [x] = x"
| "str_join sep (x # y # ys) = x @ sep @ str_join sep (y # ys)"

text \<open>\<open>s.startswith(p)\<close>.\<close>

definition startswith :: "string \<Rightarrow> string \<Rightarrow> bool" where
  "startswith s p = (take (length p) s = p)"

definition endswith :: "string \<Rightarrow> string \<Rightarrow> bool" where
  "endswith s p = (length p \<le> length s \<and> drop (length s - length p) s = p)"

text \<open>\<open>s.split(d)\<close> for a one-character separator: never the empty list.\<close>

fun split_on :: "char \<Rightarrow> string \<Rightarrow> string list" where
  "split_on d [] = [[]]"
| "split_on d (c # cs) =
     (if c = d then [] # split_on d cs
      else (case split_on d cs of
              [] \<Rightarrow> [[c]]
            | w # ws \<Rightarrow> (c # w) # ws))"

text \<open>
  \<open>template % (a, b, ...)\<close> for a template whose only conversion is \<open>%s\<close>, which is
  every template of the script. \<open>None\<close> is Python's TypeError (too few or too many
  arguments) or ValueError (another conversion character).
\<close>

fun percent :: "string \<Rightarrow> string list \<Rightarrow> string option" where
  "percent [] args = (if args = [] then Some [] else None)"
| "percent [c] args =
     (if c = CHR ''%'' then None
      else if args = [] then Some [c] else None)"
| "percent (c # d # cs) args =
     (if c = CHR ''%'' then
        (if d = CHR ''s'' then
           (case args of
              [] \<Rightarrow> None
            | a # as \<Rightarrow> map_option (\<lambda>r. a @ r) (percent cs as))
         else None)
      else map_option (\<lambda>r. c # r) (percent (d # cs) args))"

text \<open>\<open>str(b).lower()\<close> for a bool.\<close>

definition str_lower_bool :: "bool \<Rightarrow> string" where
  "str_lower_bool b = (if b then ''true'' else ''false'')"

text \<open>\<open>os.path.join\<close> of posixpath, two arguments and then any number.\<close>

definition join2 :: "string \<Rightarrow> string \<Rightarrow> string" where
  "join2 a b =
     (if startswith b ''/'' then b
      else if a = [] \<or> endswith a ''/'' then a @ b
      else a @ ''/'' @ b)"

definition path_join :: "string \<Rightarrow> string list \<Rightarrow> string" where
  "path_join a bs = foldl join2 a bs"

subsection \<open>Constants of the script\<close>

definition APPLE_FRAMEWORK_NAME :: string where
  "APPLE_FRAMEWORK_NAME = ''WebRTC.framework''"

definition APPLE_DSYM_NAME :: string where
  "APPLE_DSYM_NAME = ''WebRTC.dSYM''"

definition ANDROID_CPU_ABI_MAP :: "(string \<times> string) list" where
  "ANDROID_CPU_ABI_MAP =
     [(''arm'', ''armeabi-v7a''),
      (''arm64'', ''arm64-v8a''),
      (''x86'', ''x86''),
      (''x64'', ''x86_64'')]"

definition ANDROID_BUILD_CPUS :: "string list" where
  "ANDROID_BUILD_CPUS = [''arm'', ''arm64'', ''x86'', ''x64'']"

definition IOS_BUILD_ARCHS :: "string list" where
  "IOS_BUILD_ARCHS = [''device:arm64'', ''simulator:arm64'', ''simulator:x64'']"

definition MACOS_BUILD_ARCHS :: "string list" where
  "MACOS_BUILD_ARCHS = [''arm64'', ''x64'']"

definition ANDROID_PAGE_SIZE_LDFLAGS :: "string list" where
  \<open>ANDROID_PAGE_SIZE_LDFLAGS =
     [''extra_ldflags=["-Wl,-z,common-page-size=4096","-Wl,-z,max-page-size=16384"]'']\<close>

definition GN_COMMON_ARGS :: "string list" where
  \<open>GN_COMMON_ARGS =
     [''rtc_libvpx_build_vp9=true'',
      ''rtc_enable_protobuf=false'',
      ''rtc_include_tests=false'',
      ''is_debug=%s'',
      ''target_cpu="%s"'']\<close>

text \<open>The single quote is written \<open>CHR 0x27\<close>.\<close>

definition build_gn_args :: "string list \<Rightarrow> string" where
  "build_gn_args platform_args =
     ''--args='' @ [CHR 0x27] @ str_join '' '' (GN_COMMON_ARGS @ platform_args) @ [CHR 0x27]"

definition GN_APPLE_COMMON :: "string list" where
  "GN_APPLE_COMMON =
     [''enable_dsyms=true'',
      ''enable_stripping=true'',
      ''rtc_enable_symbol_export=false'',
      ''rtc_enable_objc_symbol_export=true'']"

definition GN_IOS_ARGS_list :: "string list" where
  \<open>GN_IOS_ARGS_list =
     [''ios_deployment_target="12.0"'',
      ''ios_enable_code_signing=false'',
      ''target_os="ios"'',
      ''target_environment="%s"'']\<close>

definition GN_IOS_ARGS :: string where
  "GN_IOS_ARGS = build_gn_args (GN_APPLE_COMMON @ GN_IOS_ARGS_list)"

definition GN_MACOS_ARGS_list :: "string list" where
  \<open>GN_MACOS_ARGS_list = [''target_os="mac"'']\<close>

definition GN_MACOS_ARGS :: string where
  "GN_MACOS_ARGS = build_gn_args (GN_APPLE_COMMON @ GN_MACOS_ARGS_list)"

definition GN_ANDROID_ARGS_list :: "string list" where
  \<open>GN_ANDROID_ARGS_list = [''target_os="android"''] @ ANDROID_PAGE_SIZE_LDFLAGS\<close>

definition GN_ANDROID_ARGS :: string where
  "GN_ANDROID_ARGS = build_gn_args GN_ANDROID_ARGS_list"

subsection \<open>The world, the trace and the control flow\<close>

type_synonym errno = int

definition ENOENT :: errno where "ENOENT = 2"
definition EEXIST :: errno where "EEXIST = 17"

type_synonym env = "(string \<times> string) list"

text \<open>
  What \<open>subprocess.check_call\<close> does: the command ended with a return code (zero, an
  exit code from 1 to 255, or the negated number of the signal that killed the shell),
  KeyboardInterrupt was raised while it ran, or the process could not be started (an
  OSError, for example a working directory that does not exist).
\<close>

datatype outcome = Returned int | Interrupted | Failed errno

text \<open>
  The functions the script calls and does not define. A file-system function returns
  the new world and \<open>None\<close>, or the errno of the OSError it raised.
\<close>

record 'w os_api =
  os_isdir :: "string \<Rightarrow> 'w \<Rightarrow> bool"
  os_abspath :: "string \<Rightarrow> 'w \<Rightarrow> string"
  os_environ :: "'w \<Rightarrow> env"
  os_makedirs :: "string \<Rightarrow> 'w \<Rightarrow> 'w \<times> errno option"
  os_chdir :: "string \<Rightarrow> 'w \<Rightarrow> 'w \<times> errno option"
  shutil_rmtree :: "string \<Rightarrow> 'w \<Rightarrow> 'w \<times> errno option"
  shutil_copy :: "string \<Rightarrow> string \<Rightarrow> 'w \<Rightarrow> 'w \<times> errno option"
  shutil_copytree :: "string \<Rightarrow> string \<Rightarrow> bool \<Rightarrow> 'w \<Rightarrow> 'w \<times> errno option"
  shutil_move :: "string \<Rightarrow> string \<Rightarrow> 'w \<Rightarrow> 'w \<times> errno option"
  check_call :: "string \<Rightarrow> env option \<Rightarrow> string option \<Rightarrow> 'w \<Rightarrow> 'w \<times> outcome"

text \<open>
  The trace: what was printed, each external command as invoked (command line,
  \<open>env\<close>, \<open>cwd\<close>) followed by how it ended, and each file-system call.
\<close>

datatype event =
    Print string
  | Run string "env option" "string option"
  | Done outcome
  | Makedirs string
  | Chdir string
  | Rmtree string
  | Copy string string
  | Copytree string string bool
  | Move string string

record 'w state =
  world :: 'w
  trace :: "event list"

datatype exn = OSError errno | KeyError string | ValueError | TypeError | IndexError

text \<open>
  How a statement ends: it completes (\<open>Continue\<close>), \<open>sys.exit(n)\<close> was called
  (\<open>Exit n\<close>), or an exception nobody catches was raised (\<open>Raise e\<close>: the interpreter
  prints a traceback and the process ends with code 1).
\<close>

datatype status = Continue | Exit int | Raise exn

type_synonym 'w step = "'w state \<Rightarrow> 'w state \<times> status"

text \<open>
  The exit status the operating system reports for the process: 0 when the script runs
  to its end, the low eight bits of \<open>n\<close> after \<open>sys.exit(n)\<close>, 1 after a traceback.
\<close>

definition exit_code :: "status \<Rightarrow> int" where
  "exit_code st = (case st of Continue \<Rightarrow> 0 | Exit n \<Rightarrow> n mod 256 | Raise e \<Rightarrow> 1)"

definition emit :: "event \<Rightarrow> 'w state \<Rightarrow> 'w state" where
  "emit e s = s\<lparr>trace := trace s @ [e]\<rparr>"

text \<open>Statements in sequence: the first that does not complete ends the sequence.\<close>

fun seqs :: "'w step list \<Rightarrow> 'w step" where
  "seqs [] s = (s, Continue)"
| "seqs (f # fs) s =
     (case f s of
        (s', Continue) \<Rightarrow> seqs fs s'
      | (s', Exit n) \<Rightarrow> (s', Exit n)
      | (s', Raise e) \<Rightarrow> (s', Raise e))"

text \<open>\<open>if c: body\<close> with no else branch.\<close>

definition if_then :: "('w state \<Rightarrow> bool) \<Rightarrow> 'w step \<Rightarrow> 'w step" where
  "if_then c body s = (if c s then body s else (s, Continue))"

definition print :: "string \<Rightarrow> 'w step" where
  "print msg s = (emit (Print msg) s, Continue)"

definition sys_exit :: "int \<Rightarrow> 'w step" where
  "sys_exit n s = (s, Exit n)"

definition raise :: "exn \<Rightarrow> 'w step" where
  "raise e s = (s, Raise e)"

text \<open>A file-system call that is not inside a try block: an OSError propagates.\<close>

definition fs_call :: "event \<Rightarrow> ('w \<Rightarrow> 'w \<times> errno option) \<Rightarrow> 'w step" where
  "fs_call ev f s =
     (case f (world s) of
        (w', None) \<Rightarrow> (emit ev (s\<lparr>world := w'\<rparr>), Continue)
      | (w', Some e) \<Rightarrow> (emit ev (s\<lparr>world := w'\<rparr>), Raise (OSError e)))"

definition chdir :: "'w os_api \<Rightarrow> string \<Rightarrow> 'w step" where
  "chdir os path = fs_call (Chdir path) (os_chdir os path)"

definition copy :: "'w os_api \<Rightarrow> string \<Rightarrow> string \<Rightarrow> 'w step" where
  "copy os src dst = fs_call (Copy src dst) (shutil_copy os src dst)"

definition copytree :: "'w os_api \<Rightarrow> string \<Rightarrow> string \<Rightarrow> bool \<Rightarrow> 'w step" where
  "copytree os src dst symlinks =
     fs_call (Copytree src dst symlinks) (shutil_copytree os src dst symlinks)"

definition move :: "'w os_api \<Rightarrow> string \<Rightarrow> string \<Rightarrow> 'w step" where
  "move os src dst = fs_call (Move src dst) (shutil_move os src dst)"

subsection \<open>sh, mkdirp, rmr\<close>

text \<open>
  \<open>sh\<close>: print the command, run it; CalledProcessError (a non-zero exit code) becomes
  \<open>sys.exit(e.returncode)\<close>, KeyboardInterrupt is passed over, anything else
  propagates.
\<close>

definition sh :: "'w os_api \<Rightarrow> string \<Rightarrow> env option \<Rightarrow> string option \<Rightarrow> 'w step" where
  "sh os cmd env cwd s =
     (let s1 = emit (Run cmd env cwd) (emit (Print (''Running cmd: '' @ cmd)) s);
          (w', r) = check_call os cmd env cwd (world s1);
          s2 = emit (Done r) (s1\<lparr>world := w'\<rparr>)
      in case r of
           Returned rc \<Rightarrow> if rc \<noteq> 0 then (s2, Exit rc) else (s2, Continue)
         | Interrupted \<Rightarrow> (s2, Continue)
         | Failed e \<Rightarrow> (s2, Raise (OSError e)))"

definition mkdirp :: "'w os_api \<Rightarrow> string \<Rightarrow> 'w step" where
  "mkdirp os path s =
     (case os_makedirs os path (world s) of
        (w', None) \<Rightarrow> (emit (Makedirs path) (s\<lparr>world := w'\<rparr>), Continue)
      | (w', Some e) \<Rightarrow>
          if e \<noteq> EEXIST then (emit (Makedirs path) (s\<lparr>world := w'\<rparr>), Raise (OSError e))
          else (emit (Makedirs path) (s\<lparr>world := w'\<rparr>), Continue))"

definition rmr :: "'w os_api \<Rightarrow> string \<Rightarrow> 'w step" where
  "rmr os path s =
     (case shutil_rmtree os path (world s) of
        (w', None) \<Rightarrow> (emit (Rmtree path) (s\<lparr>world := w'\<rparr>), Continue)
      | (w', Some e) \<Rightarrow>
          if e \<noteq> ENOENT then (emit (Rmtree path) (s\<lparr>world := w'\<rparr>), Raise (OSError e))
          else (emit (Rmtree path) (s\<lparr>world := w'\<rparr>), Continue))"

subsection \<open>setup\<close>

definition setup_action :: "'w os_api \<Rightarrow> string \<Rightarrow> string \<Rightarrow> 'w step" where
  "setup_action os target_dir platform =
     (let depot_tools_dir = path_join target_dir [''depot_tools''] in
      seqs
       [mkdirp os target_dir,
        chdir os target_dir,
        if_then (\<lambda>s. \<not> os_isdir os depot_tools_dir (world s))
          (seqs
            [print ''Fetching Chromium depot_tools...'',
             sh os ''git clone https://chromium.googlesource.com/chromium/tools/depot_tools.git''
               None None]),
        (\<lambda>s.
           case map_of (os_environ os (world s)) ''PATH'' of
             None \<Rightarrow> raise (KeyError ''PATH'') s
           | Some p \<Rightarrow>
               (let env = AList.update ''PATH'' (p @ '':'' @ depot_tools_dir)
                            (os_environ os (world s));
                    webrtc_dir = path_join target_dir [''webrtc'', platform]
                in seqs
                    [if_then (\<lambda>s. \<not> os_isdir os webrtc_dir (world s))
                       (seqs
                         [mkdirp os webrtc_dir,
                          chdir os webrtc_dir,
                          print (''Fetching WebRTC for '' @ platform @ ''...''),
                          sh os (''fetch --nohooks webrtc_'' @ platform) (Some env) None]),
                     sh os ''gclient sync'' (Some env) None,
                     if_then (\<lambda>s. platform = ''android'')
                       (seqs
                         [chdir os (path_join target_dir [''webrtc'', platform, ''src'']),
                          sh os ''./build/install-build-deps.sh'' None None])] s))])"

subsection \<open>sync\<close>

text \<open>
  The environment that \<open>sync\<close> and \<open>build\<close> both compute (the source repeats the
  lines): a copy of \<open>os.environ\<close> whose PATH is the old PATH, the depot_tools
  directory and, for Android, three directories of the checkout, joined by colons.
  \<open>None\<close> is the KeyError of \<open>env['PATH']\<close>.
\<close>

definition tools_env :: "env \<Rightarrow> string \<Rightarrow> string \<Rightarrow> string \<Rightarrow> env option" where
  "tools_env environ depot_tools_dir webrtc_dir platform =
     (case map_of environ ''PATH'' of
        None \<Rightarrow> None
      | Some p \<Rightarrow>
          (let path_parts = [p, depot_tools_dir];
               android_sdk_root = path_join webrtc_dir [''third_party/android_sdk/public''];
               path_parts =
                 (if platform = ''android''
                  then path_parts @
                       [path_join android_sdk_root [''platform-tools''],
                        path_join android_sdk_root [''tools''],
                        path_join webrtc_dir [''build/android'']]
                  else path_parts)
           in Some (AList.update ''PATH'' (str_join '':'' path_parts) environ)))"

definition sync :: "'w os_api \<Rightarrow> string \<Rightarrow> string \<Rightarrow> 'w step" where
  "sync os target_dir platform =
     (let depot_tools_dir = path_join target_dir [''depot_tools''];
          webrtc_dir = path_join target_dir [''webrtc'', platform, ''src'']
      in seqs
          [if_then (\<lambda>s. \<not> os_isdir os webrtc_dir (world s))
             (seqs
               [print ''WebRTC source not found, did you forget to run --setup?'',
                sys_exit 1]),
           (\<lambda>s.
              case tools_env (os_environ os (world s)) depot_tools_dir webrtc_dir platform of
                None \<Rightarrow> raise (KeyError ''PATH'') s
              | Some env \<Rightarrow>
                  seqs
                   [chdir os webrtc_dir,
                    sh os ''gclient sync -D'' (Some env) None] s)])"

subsection \<open>build\<close>

text \<open>The names of the build-output directories (the f-strings of \<open>build\<close>).\<close>

definition ios_gn_out_dir :: "string \<Rightarrow> string \<Rightarrow> string \<Rightarrow> string" where
  "ios_gn_out_dir build_type tenv arch = ''out/'' @ build_type @ ''-ios-'' @ tenv @ ''-'' @ arch"

definition macos_gn_out_dir :: "string \<Rightarrow> string \<Rightarrow> string" where
  "macos_gn_out_dir build_type arch = ''out/'' @ build_type @ ''-macos-'' @ arch"

definition android_gn_out_dir :: "string \<Rightarrow> string \<Rightarrow> string" where
  "android_gn_out_dir build_type cpu = ''out/'' @ build_type @ ''-'' @ cpu"

text \<open>\<open>tenv, arch = item.split(':')\<close>: \<open>None\<close> is the ValueError of the unpacking.\<close>

definition split_item :: "string \<Rightarrow> (string \<times> string) option" where
  "split_item item =
     (case split_on CHR '':'' item of
        [tenv, arch] \<Rightarrow> Some (tenv, arch)
      | _ \<Rightarrow> None)"

text \<open>
  The \<open>gn gen\<close> command lines. \<open>None\<close> is the TypeError of the \<open>%\<close> operator.
\<close>

definition ios_gn_gen_cmd :: "string \<Rightarrow> bool \<Rightarrow> string \<Rightarrow> string \<Rightarrow> string option" where
  "ios_gn_gen_cmd build_type debug tenv arch =
     (let gn_out_dir = ios_gn_out_dir build_type tenv arch in
      case percent GN_IOS_ARGS [str_lower_bool debug, arch, tenv] of
        None \<Rightarrow> None
      | Some gn_args \<Rightarrow> Some (''gn gen '' @ gn_out_dir @ '' '' @ gn_args))"

definition macos_gn_gen_cmd :: "string \<Rightarrow> bool \<Rightarrow> string \<Rightarrow> string option" where
  "macos_gn_gen_cmd build_type debug arch =
     (let gn_out_dir = macos_gn_out_dir build_type arch in
      case percent GN_MACOS_ARGS [str_lower_bool debug, arch] of
        None \<Rightarrow> None
      | Some gn_args \<Rightarrow> Some (''gn gen '' @ gn_out_dir @ '' '' @ gn_args))"

definition android_gn_gen_cmd :: "string \<Rightarrow> bool \<Rightarrow> string \<Rightarrow> string option" where
  "android_gn_gen_cmd build_type debug cpu =
     (let gn_out_dir = android_gn_out_dir build_type cpu in
      case percent GN_ANDROID_ARGS [str_lower_bool debug, cpu] of
        None \<Rightarrow> None
      | Some gn_args \<Rightarrow> Some (''gn gen '' @ gn_out_dir @ '' '' @ gn_args))"

text \<open>The first pair of loops of \<open>build\<close>: one \<open>gn gen\<close> per architecture.\<close>

definition gn_gen_steps :: "'w os_api \<Rightarrow> string \<Rightarrow> string \<Rightarrow> bool \<Rightarrow> env \<Rightarrow> 'w step list" where
  "gn_gen_steps os platform build_type debug env =
     (if platform = ''ios'' then
        map (\<lambda>item.
               case split_item item of
                 None \<Rightarrow> raise ValueError
               | Some (tenv, arch) \<Rightarrow>
                   (case ios_gn_gen_cmd build_type debug tenv arch of
                      None \<Rightarrow> raise TypeError
                    | Some cmd \<Rightarrow> sh os cmd (Some env) None))
          IOS_BUILD_ARCHS
        @
        map (\<lambda>arch.
               case macos_gn_gen_cmd build_type debug arch of
                 None \<Rightarrow> raise TypeError
               | Some cmd \<Rightarrow> sh os cmd (Some env) None)
          MACOS_BUILD_ARCHS
      else
        map (\<lambda>cpu.
               case android_gn_gen_cmd build_type debug cpu of
                 None \<Rightarrow> raise TypeError
               | Some cmd \<Rightarrow> sh os cmd (Some env) None)
          ANDROID_BUILD_CPUS)"

text \<open>The second pair of loops: one \<open>ninja\<close> per architecture.\<close>

definition ninja_steps :: "'w os_api \<Rightarrow> string \<Rightarrow> string \<Rightarrow> env \<Rightarrow> 'w step list" where
  "ninja_steps os platform build_type env =
     (if platform = ''ios'' then
        map (\<lambda>item.
               case split_item item of
                 None \<Rightarrow> raise ValueError
               | Some (tenv, arch) \<Rightarrow>
                   sh os (''ninja -C '' @ ios_gn_out_dir build_type tenv arch @ '' framework_objc'')
                     (Some env) None)
          IOS_BUILD_ARCHS
        @
        map (\<lambda>arch.
               sh os (''ninja -C '' @ macos_gn_out_dir build_type arch @ '' mac_framework_objc'')
                 (Some env) None)
          MACOS_BUILD_ARCHS
      else
        map (\<lambda>cpu.
               sh os (''ninja -C '' @ android_gn_out_dir build_type cpu
                        @ '' libwebrtc libjingle_peerconnection_so'')
                 (Some env) None)
          ANDROID_BUILD_CPUS)"

text \<open>
  The Apple packaging (the \<open>if platform == 'ios'\<close> branch after the output directory
  is recreated). The slice lists are built by loops that unpack \<open>item.split(':')\<close>.
\<close>

definition lipo_cmd :: "string list \<Rightarrow> string \<Rightarrow> string" where
  "lipo_cmd slice_paths out_path =
     ''lipo '' @ str_join '' '' slice_paths @ '' -create -output '' @ out_path"

definition xcodebuild_cmd ::
  "'w os_api \<Rightarrow> string \<Rightarrow> string \<Rightarrow> string list \<Rightarrow> string \<Rightarrow> 'w \<Rightarrow> string option" where
  "xcodebuild_cmd os build_dir build_type ios_archs macos_arch w =
     (case those (map split_item ios_archs) of
        None \<Rightarrow> None
      | Some pairs \<Rightarrow>
          Some (''xcodebuild -create-xcframework -output ''
                @ path_join build_dir [''WebRTC.xcframework'']
                @ concat
                    (map (\<lambda>(tenv, arch).
                            '' -framework ''
                            @ os_abspath os
                                (path_join (ios_gn_out_dir build_type tenv arch)
                                   [APPLE_FRAMEWORK_NAME]) w
                            @ '' -debug-symbols ''
                            @ os_abspath os
                                (path_join (ios_gn_out_dir build_type tenv arch)
                                   [APPLE_DSYM_NAME]) w)
                       pairs)
                @ '' -framework ''
                @ os_abspath os
                    (path_join (macos_gn_out_dir build_type macos_arch) [APPLE_FRAMEWORK_NAME]) w
                @ '' -debug-symbols ''
                @ os_abspath os
                    (path_join (macos_gn_out_dir build_type macos_arch) [APPLE_DSYM_NAME]) w))"

definition package_ios :: "'w os_api \<Rightarrow> string \<Rightarrow> string \<Rightarrow> 'w step" where
  "package_ios os build_dir build_type =
     (let simulators = filter (\<lambda>item. startswith item ''simulator'') IOS_BUILD_ARCHS in
      case simulators of
        [] \<Rightarrow> raise IndexError
      | sim0 # _ \<Rightarrow>
      (case split_item sim0 of
        None \<Rightarrow> raise ValueError
      | Some (tenv, arch) \<Rightarrow>
      (let gn_out_dir = ios_gn_out_dir build_type tenv arch;
           dwarf = [''Contents'', ''Resources'', ''DWARF'', ''WebRTC'']
       in seqs
        [copytree os (path_join gn_out_dir [APPLE_FRAMEWORK_NAME])
           (path_join gn_out_dir [''fat-'' @ APPLE_FRAMEWORK_NAME]) False,
         (case those (map split_item simulators) of
            None \<Rightarrow> raise ValueError
          | Some pairs \<Rightarrow>
              sh os
                (lipo_cmd
                   (map (\<lambda>(tenv, arch).
                           path_join (ios_gn_out_dir build_type tenv arch)
                             [APPLE_FRAMEWORK_NAME, ''WebRTC''])
                      pairs)
                   (path_join gn_out_dir [''fat-'' @ APPLE_FRAMEWORK_NAME, ''WebRTC'']))
                None None),
         move os (path_join gn_out_dir [APPLE_FRAMEWORK_NAME])
           (path_join gn_out_dir [''bak-'' @ APPLE_FRAMEWORK_NAME]),
         move os (path_join gn_out_dir [''fat-'' @ APPLE_FRAMEWORK_NAME])
           (path_join gn_out_dir [APPLE_FRAMEWORK_NAME]),
         copytree os (path_join gn_out_dir [APPLE_DSYM_NAME])
           (path_join gn_out_dir [''fat-'' @ APPLE_DSYM_NAME]) False,
         (case those (map split_item simulators) of
            None \<Rightarrow> raise ValueError
          | Some pairs \<Rightarrow>
              sh os
                (lipo_cmd
                   (map (\<lambda>(tenv, arch).
                           path_join (ios_gn_out_dir build_type tenv arch)
                             (APPLE_DSYM_NAME # dwarf))
                      pairs)
                   (path_join gn_out_dir ((''fat-'' @ APPLE_DSYM_NAME) # dwarf)))
                None None),
         move os (path_join gn_out_dir [APPLE_DSYM_NAME])
           (path_join gn_out_dir [''bak-'' @ APPLE_DSYM_NAME]),
         move os (path_join gn_out_dir [''fat-'' @ APPLE_DSYM_NAME])
           (path_join gn_out_dir [APPLE_DSYM_NAME]),
         (let ios_archs =
                filter (\<lambda>item. \<not> startswith item ''simulator'') IOS_BUILD_ARCHS @ [sim0]
          in case MACOS_BUILD_ARCHS of
               [] \<Rightarrow> raise IndexError
             | macos0 # _ \<Rightarrow>
             (let gn_out_dir = macos_gn_out_dir build_type macos0 in
              seqs
               [copytree os (path_join gn_out_dir [APPLE_FRAMEWORK_NAME])
                  (path_join gn_out_dir [''fat-'' @ APPLE_FRAMEWORK_NAME]) True,
                sh os
                  (lipo_cmd
                     (map (\<lambda>arch.
                             path_join (macos_gn_out_dir build_type arch)
                               [APPLE_FRAMEWORK_NAME, ''Versions'', ''Current'', ''WebRTC''])
                        MACOS_BUILD_ARCHS)
                     (path_join gn_out_dir
                        [''fat-'' @ APPLE_FRAMEWORK_NAME, ''Versions'', ''Current'', ''WebRTC'']))
                  None None,
                move os (path_join gn_out_dir [APPLE_FRAMEWORK_NAME])
                  (path_join gn_out_dir [''bak-'' @ APPLE_FRAMEWORK_NAME]),
                move os (path_join gn_out_dir [''fat-'' @ APPLE_FRAMEWORK_NAME])
                  (path_join gn_out_dir [APPLE_FRAMEWORK_NAME]),
                copytree os (path_join gn_out_dir [APPLE_DSYM_NAME])
                  (path_join gn_out_dir [''fat-'' @ APPLE_DSYM_NAME]) False,
                sh os
                  (lipo_cmd
                     (map (\<lambda>arch.
                             path_join (macos_gn_out_dir build_type arch)
                               (APPLE_DSYM_NAME # dwarf))
                        MACOS_BUILD_ARCHS)
                     (path_join gn_out_dir ((''fat-'' @ APPLE_DSYM_NAME) # dwarf)))
                  None None,
                (\<lambda>s. case xcodebuild_cmd os build_dir build_type ios_archs macos0 (world s) of
                        None \<Rightarrow> raise ValueError s
                      | Some cmd \<Rightarrow> sh os cmd None None s),
                sh os ''zip -y -r WebRTC.xcframework.zip WebRTC.xcframework''
                  None (Some build_dir)]))])))"

text \<open>
  The Android packaging (the else branch), in two parts: the statements that fill the
  output directory, and the \<open>zip\<close> command that follows them.
\<close>

definition stage_android :: "'w os_api \<Rightarrow> string \<Rightarrow> string \<Rightarrow> 'w step" where
  "stage_android os build_dir build_type =
     (case ANDROID_BUILD_CPUS of
        [] \<Rightarrow> raise IndexError
      | cpu0 # _ \<Rightarrow>
          seqs
           ([copy os
               (path_join (android_gn_out_dir build_type cpu0)
                  [''lib.java/sdk/android/libwebrtc.jar''])
               build_dir]
            @ map (\<lambda>cpu.
                     case map_of ANDROID_CPU_ABI_MAP cpu of
                       None \<Rightarrow> raise (KeyError cpu)
                     | Some abi \<Rightarrow>
                         (let lib_dir = path_join build_dir [abi] in
                          seqs
                           [mkdirp os lib_dir,
                            copy os
                              (path_join (android_gn_out_dir build_type cpu)
                                 [''libjingle_peerconnection_so.so''])
                              lib_dir]))
                ANDROID_BUILD_CPUS))"

definition package_android :: "'w os_api \<Rightarrow> string \<Rightarrow> string \<Rightarrow> 'w step" where
  "package_android os build_dir build_type =
     seqs
      [stage_android os build_dir build_type,
       sh os ''zip -r android-webrtc.zip *'' None (Some build_dir)]"

definition build :: "'w os_api \<Rightarrow> string \<Rightarrow> string \<Rightarrow> bool \<Rightarrow> 'w step" where
  "build os target_dir platform debug =
     (let build_dir = path_join target_dir [''build'', platform];
          build_type = (if debug then ''Debug'' else ''Release'');
          depot_tools_dir = path_join target_dir [''depot_tools''];
          webrtc_dir = path_join target_dir [''webrtc'', platform, ''src'']
      in seqs
          [if_then (\<lambda>s. \<not> os_isdir os webrtc_dir (world s))
             (seqs
               [print ''WebRTC source not found, did you forget to run --setup?'',
                sys_exit 1]),
           (\<lambda>s.
              case tools_env (os_environ os (world s)) depot_tools_dir webrtc_dir platform of
                None \<Rightarrow> raise (KeyError ''PATH'') s
              | Some env \<Rightarrow>
                  seqs
                   ([chdir os webrtc_dir,
                     rmr os ''out'']
                    @ gn_gen_steps os platform build_type debug env
                    @ ninja_steps os platform build_type env
                    @ [rmr os build_dir,
                       mkdirp os build_dir,
                       if platform = ''ios'' then package_ios os build_dir build_type
                       else package_android os build_dir build_type]) s)])"

subsection \<open>The main block\<close>

text \<open>The namespace that \<open>parser.parse_args()\<close> returns.\<close>

record args =
  args_dir :: string
  args_setup :: bool
  args_build :: bool
  args_sync :: bool
  args_ios :: bool
  args_android :: bool
  args_debug :: bool

definition main :: "'w os_api \<Rightarrow> args \<Rightarrow> 'w step" where
  "main os a =
     seqs
      [if_then (\<lambda>s. \<not> (args_setup a \<or> args_build a \<or> args_sync a))
         (seqs [print ''--setup or --build or --sync must be specified!'', sys_exit 1]),
       if_then (\<lambda>s. sum_list [of_bool (args_setup a), of_bool (args_build a)] > (1::nat))
         (seqs [print ''--setup and --build cannot be specified together!'', sys_exit 1]),
       if_then (\<lambda>s. \<not> (args_ios a \<or> args_android a))
         (seqs [print ''--ios or --android must be specified!'', sys_exit 1]),
       if_then (\<lambda>s. args_ios a \<and> args_android a)
         (seqs [print ''--ios and --android cannot be specified at the same time!'',
                sys_exit 1]),
       if_then (\<lambda>s. \<not> os_isdir os (args_dir a) (world s))
         (seqs [print ''The specified directory does not exist!'', sys_exit 1]),
       (\<lambda>s.
          let target_dir = os_abspath os (path_join (args_dir a) [''build_webrtc'']) (world s);
              platform = (if args_ios a then ''ios'' else ''android'')
          in seqs
              [if_then (\<lambda>s. args_setup a)
                 (seqs
                   [setup_action os target_dir platform,
                    print (''WebRTC setup for '' @ platform @ '' completed in '' @ target_dir),
                    sys_exit 0]),
               if_then (\<lambda>s. args_sync a)
                 (seqs
                   [sync os target_dir platform,
                    print (''WebRTC sync for '' @ platform @ '' completed in '' @ target_dir),
                    sys_exit 0]),
               if_then (\<lambda>s. args_build a)
                 (seqs
                   [build os target_dir platform (args_debug a),
                    print (''WebRTC build for '' @ platform @ '' completed in '' @ target_dir),
                    sys_exit 0])] s)]"

text \<open>A run of the script starts with an empty trace.\<close>

definition start :: "'w \<Rightarrow> 'w state" where
  "start w = \<lparr>world = w, trace = []\<rparr>"

subsection \<open>A small in-memory operating system\<close>

text \<open>
  One instance of \<open>os_api\<close>, used to run the script on concrete inputs: directories
  and files are absolute path strings, a relative path is resolved against the
  current directory (paths are not normalised), and the external commands are
  scripted: each invocation takes the next entry of \<open>sim_script\<close>, which gives its
  outcome and the directories and files it creates (relative to its working
  directory, together with the directories that lead to them). With the script used
  up, a command returns 0 and creates nothing. Where \<open>sim_expect\<close> is not empty, its
  head is what the command line of the next invocation has to start with: for any
  other command line the shell finds no such program and returns 127.
\<close>

definition ENOTDIR :: errno where "ENOTDIR = 20"

record sim_world =
  sim_dirs :: "string list"
  sim_files :: "string list"
  sim_cwd :: string
  sim_env :: env
  sim_script :: "(outcome \<times> string list \<times> string list) list"
  sim_expect :: "string list"

definition resolve :: "sim_world \<Rightarrow> string \<Rightarrow> string" where
  "resolve w p = join2 (sim_cwd w) p"

definition under :: "string \<Rightarrow> string \<Rightarrow> bool" where
  "under d p = (p = d \<or> startswith p (d @ ''/''))"

definition parents :: "string \<Rightarrow> string list" where
  "parents q = map (\<lambda>i. take i q) (filter (\<lambda>i. q ! i = CHR ''/'') [1..<length q])"

definition basename :: "string \<Rightarrow> string" where
  "basename p = last (split_on CHR ''/'' p)"

definition dirname :: "string \<Rightarrow> string" where
  "dirname p = str_join ''/'' (butlast (split_on CHR ''/'' p))"

definition sim_exists :: "sim_world \<Rightarrow> string \<Rightarrow> bool" where
  "sim_exists w q = (q \<in> set (sim_dirs w) \<or> q \<in> set (sim_files w))"

definition sim_isdir :: "string \<Rightarrow> sim_world \<Rightarrow> bool" where
  "sim_isdir p w = (resolve w p \<in> set (sim_dirs w))"

definition sim_makedirs :: "string \<Rightarrow> sim_world \<Rightarrow> sim_world \<times> errno option" where
  "sim_makedirs p w =
     (let q = resolve w p in
      if sim_exists w q then (w, Some EEXIST)
      else if list_ex (\<lambda>a. a \<in> set (sim_files w)) (parents q) then (w, Some ENOTDIR)
      else (w\<lparr>sim_dirs :=
                sim_dirs w @ filter (\<lambda>a. a \<notin> set (sim_dirs w)) (parents q) @ [q]\<rparr>, None))"

definition sim_chdir :: "string \<Rightarrow> sim_world \<Rightarrow> sim_world \<times> errno option" where
  "sim_chdir p w =
     (let q = resolve w p in
      if q \<in> set (sim_dirs w) then (w\<lparr>sim_cwd := q\<rparr>, None)
      else if q \<in> set (sim_files w) then (w, Some ENOTDIR)
      else (w, Some ENOENT))"

definition sim_rmtree :: "string \<Rightarrow> sim_world \<Rightarrow> sim_world \<times> errno option" where
  "sim_rmtree p w =
     (let q = resolve w p in
      if q \<in> set (sim_files w) then (w, Some ENOTDIR)
      else if q \<notin> set (sim_dirs w) then (w, Some ENOENT)
      else (w\<lparr>sim_dirs := filter (\<lambda>x. \<not> under q x) (sim_dirs w),
               sim_files := filter (\<lambda>x. \<not> under q x) (sim_files w)\<rparr>, None))"

definition sim_copy :: "string \<Rightarrow> string \<Rightarrow> sim_world \<Rightarrow> sim_world \<times> errno option" where
  "sim_copy src dst w =
     (let s = resolve w src;
          d = resolve w dst;
          t = (if d \<in> set (sim_dirs w) then join2 d (basename s) else d)
      in if s \<notin> set (sim_files w) then (w, Some ENOENT)
         else if dirname t \<notin> set (sim_dirs w) then (w, Some ENOENT)
         else (w\<lparr>sim_files := List.insert t (sim_files w)\<rparr>, None))"

definition retarget :: "string \<Rightarrow> string \<Rightarrow> string \<Rightarrow> string" where
  "retarget s d x = (if under s x then d @ drop (length s) x else x)"

definition sim_copytree ::
  "string \<Rightarrow> string \<Rightarrow> bool \<Rightarrow> sim_world \<Rightarrow> sim_world \<times> errno option" where
  "sim_copytree src dst symlinks w =
     (let s = resolve w src;
          d = resolve w dst
      in if s \<in> set (sim_files w) then (w, Some ENOTDIR)
         else if s \<notin> set (sim_dirs w) then (w, Some ENOENT)
         else if sim_exists w d then (w, Some EEXIST)
         else (w\<lparr>sim_dirs := sim_dirs w @ map (retarget s d) (filter (under s) (sim_dirs w)),
                  sim_files :=
                    sim_files w @ map (retarget s d) (filter (under s) (sim_files w))\<rparr>,
               None))"

definition sim_move :: "string \<Rightarrow> string \<Rightarrow> sim_world \<Rightarrow> sim_world \<times> errno option" where
  "sim_move src dst w =
     (let s = resolve w src;
          d = resolve w dst;
          t = (if d \<in> set (sim_dirs w) then join2 d (basename s) else d)
      in if \<not> sim_exists w s then (w, Some ENOENT)
         else if sim_exists w t then (w, Some EEXIST)
         else (w\<lparr>sim_dirs := map (retarget s t) (sim_dirs w),
                  sim_files := map (retarget s t) (sim_files w)\<rparr>, None))"

definition sim_check_call ::
  "string \<Rightarrow> env option \<Rightarrow> string option \<Rightarrow> sim_world \<Rightarrow> sim_world \<times> outcome" where
  "sim_check_call cmd env cwd w =
     (let base = (case cwd of None \<Rightarrow> sim_cwd w | Some c \<Rightarrow> resolve w c) in
      if base \<notin> set (sim_dirs w) then (w, Failed ENOENT)
      else if sim_expect w \<noteq> [] \<and> \<not> startswith cmd (hd (sim_expect w))
      then (w, Returned 127)
      else (case sim_script w of
              [] \<Rightarrow> (w\<lparr>sim_expect := tl (sim_expect w)\<rparr>, Returned 0)
            | (r, ds, fs) # rest \<Rightarrow>
                (let new_dirs = map (join2 base) ds;
                     new_files = map (join2 base) fs
                 in (w\<lparr>sim_script := rest,
                        sim_expect := tl (sim_expect w),
                        sim_dirs :=
                          sim_dirs w
                          @ filter (\<lambda>a. a \<notin> set (sim_dirs w))
                              (concat (map parents (new_dirs @ new_files)))
                          @ new_dirs,
                        sim_files := sim_files w @ new_files\<rparr>, r))))"

definition sim_os :: "sim_world os_api" where
  "sim_os =
     \<lparr>os_isdir = sim_isdir,
      os_abspath = (\<lambda>p w. resolve w p),
      os_environ = sim_env,
      os_makedirs = sim_makedirs,
      os_chdir = sim_chdir,
      shutil_rmtree = sim_rmtree,
      shutil_copy = sim_copy,
      shutil_copytree = sim_copytree,
      shutil_move = sim_move,
      check_call = sim_check_call\<rparr>"

text \<open>
  The directories and the files at or below a directory, and a condition on a world:
  every directory and every file lies in directories that exist.
\<close>

definition below_dirs :: "string \<Rightarrow> sim_world \<Rightarrow> string set" where
  "below_dirs bd w = {p. under bd p \<and> p \<in> set (sim_dirs w)}"

definition below_files :: "string \<Rightarrow> sim_world \<Rightarrow> string set" where
  "below_files bd w = {p. under bd p \<and> p \<in> set (sim_files w)}"

definition sim_wf :: "sim_world \<Rightarrow> bool" where
  "sim_wf w =
     (\<forall>p\<in>set (sim_dirs w @ sim_files w). \<forall>a\<in>set (parents p). a \<in> set (sim_dirs w))"

text \<open>A statement preserves a condition on the world, however it ends.\<close>

definition preserves :: "('w \<Rightarrow> bool) \<Rightarrow> 'w step \<Rightarrow> bool" where
  "preserves P f = (\<forall>s s' st. P (world s) \<longrightarrow> f s = (s', st) \<longrightarrow> P (world s'))"

subsection \<open>Reading a trace\<close>

text \<open>An external command that ended with a non-zero exit code.\<close>

fun is_failure :: "event \<Rightarrow> bool" where
  "is_failure (Done (Returned rc)) = (rc \<noteq> 0)"
| "is_failure _ = False"

text \<open>The command lines of the external commands invoked, in order.\<close>

fun commands :: "event list \<Rightarrow> string list" where
  "commands [] = []"
| "commands (Run cmd env cwd # es) = cmd # commands es"
| "commands (e # es) = commands es"

text \<open>
  The effects of a run: the external commands invoked and the file-system calls made,
  without what was printed and without how each command ended.
\<close>

fun is_effect :: "event \<Rightarrow> bool" where
  "is_effect (Print m) = False"
| "is_effect (Done r) = False"
| "is_effect e = True"

text \<open>
  The events a statement adds are fail-stop when none of them is a failed command, or
  the failed command is the last of them and the statement ended with
  \<open>sys.exit\<close> of its exit code.
\<close>

definition tail_ok :: "event list \<Rightarrow> status \<Rightarrow> bool" where
  "tail_ok new st =
     ((\<forall>e\<in>set new. \<not> is_failure e) \<or>
      (\<exists>pre rc. new = pre @ [Done (Returned rc)] \<and> rc \<noteq> 0 \<and>
                (\<forall>e\<in>set pre. \<not> is_failure e) \<and> st = Exit rc))"

definition failstop :: "'w step \<Rightarrow> bool" where
  "failstop f =
     (\<forall>s s' st. f s = (s', st) \<longrightarrow> (\<exists>new. trace s' = trace s @ new \<and> tail_ok new st))"

text \<open>
  A trace replayed against the operating system, from a world: each file-system call is
  made again with the arguments the trace records, each external command is run again
  with the command line, \<open>env\<close> and \<open>cwd\<close> the trace records, on the world reached
  so far. The replay fails (\<open>None\<close>) when a command does not end the way the trace says,
  or when an invocation and its outcome do not come in pairs.
\<close>

fun replay :: "'w os_api \<Rightarrow> event list \<Rightarrow> 'w \<Rightarrow> 'w option" where
  "replay os [] w = Some w"
| "replay os (Print m # es) w = replay os es w"
| "replay os (Run cmd env cwd # Done r # es) w =
     (case check_call os cmd env cwd w of
        (w', r') \<Rightarrow> if r' = r then replay os es w' else None)"
| "replay os (Run cmd env cwd # es) w = None"
| "replay os (Done r # es) w = None"
| "replay os (Makedirs p # es) w = replay os es (fst (os_makedirs os p w))"
| "replay os (Chdir p # es) w = replay os es (fst (os_chdir os p w))"
| "replay os (Rmtree p # es) w = replay os es (fst (shutil_rmtree os p w))"
| "replay os (Copy p q # es) w = replay os es (fst (shutil_copy os p q w))"
| "replay os (Copytree p q b # es) w = replay os es (fst (shutil_copytree os p q b w))"
| "replay os (Move p q # es) w = replay os es (fst (shutil_move os p q w))"

text \<open>
  A statement keeps a faithful log when the events it adds, replayed from the world it
  started in, lead to the world it ends in: it makes no call that the trace does not
  record, each recorded command was handed to \<open>check_call\<close> as recorded, and each
  recorded outcome is what \<open>check_call\<close> returned.
\<close>

definition logged :: "'w os_api \<Rightarrow> 'w step \<Rightarrow> bool" where
  "logged os f =
     (\<forall>s s' st. f s = (s', st) \<longrightarrow>
        (\<exists>new. trace s' = trace s @ new \<and> replay os new (world s) = Some (world s')))"


text \<open>
  A statement emits \<open>xs\<close> when every execution of it that completes adds exactly the
  effects \<open>xs\<close> to the trace.
\<close>

definition emits :: "'w step \<Rightarrow> event list \<Rightarrow> bool" where
  "emits f xs =
     (\<forall>s s'. f s = (s', Continue) \<longrightarrow>
        filter is_effect (trace s') = filter is_effect (trace s) @ xs)"


subsection \<open>Concrete inputs\<close>

text \<open>
  A machine on which \<open>setup\<close> for Android has been run in \<open>/w\<close>, and the arguments
  \<open>/w --android\<close>, to which the examples add their flags.
\<close>

definition demo_world :: sim_world where
  "demo_world =
     \<lparr>sim_dirs = [''/w'', ''/w/build_webrtc'', ''/w/build_webrtc/webrtc'',
                  ''/w/build_webrtc/webrtc/android'', ''/w/build_webrtc/webrtc/android/src''],
      sim_files = [],
      sim_cwd = ''/w'',
      sim_env = [(''PATH'', ''/bin'')],
      sim_script = [],
      sim_expect = []\<rparr>"

definition demo_args :: args where
  "demo_args =
     \<lparr>args_dir = ''/w'', args_setup = False, args_build = False, args_sync = False,
      args_ios = False, args_android = True, args_debug = False\<rparr>"


text \<open>
  A toolchain for an Android build: the four \<open>gn gen\<close> create nothing, each \<open>ninja\<close>
  leaves its shared object (the first also the Java archive), \<open>zip\<close> creates nothing.
\<close>

definition android_script :: "(outcome \<times> string list \<times> string list) list" where
  "android_script =
     [(Returned 0, [], []), (Returned 0, [], []), (Returned 0, [], []), (Returned 0, [], []),
      (Returned 0, [], [''out/Release-arm/lib.java/sdk/android/libwebrtc.jar'',
                        ''out/Release-arm/libjingle_peerconnection_so.so'']),
      (Returned 0, [], [''out/Release-arm64/libjingle_peerconnection_so.so'']),
      (Returned 0, [], [''out/Release-x86/libjingle_peerconnection_so.so'']),
      (Returned 0, [], [''out/Release-x64/libjingle_peerconnection_so.so'']),
      (Returned 0, [], [])]"

text \<open>What the command lines of an Android Release build have to start with.\<close>

definition android_commands :: "string list" where
  "android_commands =
     [''gn gen out/Release-arm --args='', ''gn gen out/Release-arm64 --args='',
      ''gn gen out/Release-x86 --args='', ''gn gen out/Release-x64 --args='',
      ''ninja -C out/Release-arm libwebrtc '', ''ninja -C out/Release-arm64 libwebrtc '',
      ''ninja -C out/Release-x86 libwebrtc '', ''ninja -C out/Release-x64 libwebrtc '',
      ''zip -r android-webrtc.zip '']"

text \<open>
  The machine of \<open>demo_world\<close> with that toolchain, on which only these commands run,
  and with what an earlier build left in the output directory: a zip file and a
  directory \<open>mips\<close> with a shared object.
\<close>

definition android_world :: sim_world where
  "android_world =
     demo_world
      \<lparr>sim_dirs := sim_dirs demo_world
         @ [''/w/build_webrtc/build'', ''/w/build_webrtc/build/android'',
            ''/w/build_webrtc/build/android/mips''],
       sim_files :=
         [''/w/build_webrtc/build/android/android-webrtc.zip'',
          ''/w/build_webrtc/build/android/mips/libjingle_peerconnection_so.so''],
       sim_script := android_script,
       sim_expect := android_commands\<rparr>"

section \<open>Fail-stop: every statement of the script\<close>

lemma failstopI:
  assumes "\<And>s s' st. f s = (s', st) \<Longrightarrow> \<exists>new. trace s' = trace s @ new \<and> tail_ok new st"
  shows "failstop f"
  using assms unfolding failstop_def by blast

lemma tail_ok_Continue: "tail_ok new Continue \<Longrightarrow> \<forall>e\<in>set new. \<not> is_failure e"
  by (auto simp: tail_ok_def)

lemma tail_ok_append:
  assumes "\<forall>e\<in>set new1. \<not> is_failure e" "tail_ok new2 st"
  shows "tail_ok (new1 @ new2) st"
  using assms unfolding tail_ok_def
proof (elim disjE)
  assume "\<forall>e\<in>set new1. \<not> is_failure e" "\<forall>e\<in>set new2. \<not> is_failure e"
  then show "(\<forall>e\<in>set (new1 @ new2). \<not> is_failure e) \<or>
    (\<exists>pre rc. new1 @ new2 = pre @ [Done (Returned rc)] \<and> rc \<noteq> 0 \<and>
       (\<forall>e\<in>set pre. \<not> is_failure e) \<and> st = Exit rc)"
    by auto
next
  assume clean: "\<forall>e\<in>set new1. \<not> is_failure e"
    and "\<exists>pre rc. new2 = pre @ [Done (Returned rc)] \<and> rc \<noteq> 0 \<and>
           (\<forall>e\<in>set pre. \<not> is_failure e) \<and> st = Exit rc"
  then obtain pre rc where p: "new2 = pre @ [Done (Returned rc)]" "rc \<noteq> 0"
    "\<forall>e\<in>set pre. \<not> is_failure e" "st = Exit rc"
    by blast
  have "new1 @ new2 = (new1 @ pre) @ [Done (Returned rc)]" using p by simp
  moreover have "\<forall>e\<in>set (new1 @ pre). \<not> is_failure e" using clean p by auto
  ultimately show "(\<forall>e\<in>set (new1 @ new2). \<not> is_failure e) \<or>
    (\<exists>pre rc. new1 @ new2 = pre @ [Done (Returned rc)] \<and> rc \<noteq> 0 \<and>
       (\<forall>e\<in>set pre. \<not> is_failure e) \<and> st = Exit rc)"
    using p by blast
qed

lemma failstop_print: "failstop (print m)"
  by (auto simp: failstop_def print_def emit_def tail_ok_def)

lemma failstop_sys_exit: "failstop (sys_exit n)"
  by (auto simp: failstop_def sys_exit_def tail_ok_def)

lemma failstop_raise: "failstop (raise e)"
  by (auto simp: failstop_def raise_def tail_ok_def)

lemma failstop_fs_call: "\<not> is_failure ev \<Longrightarrow> failstop (fs_call ev f)"
  by (auto simp: failstop_def fs_call_def emit_def tail_ok_def split: prod.splits option.splits)

lemma failstop_chdir: "failstop (chdir os p)"
  by (simp add: chdir_def failstop_fs_call)

lemma failstop_copy: "failstop (copy os p q)"
  by (simp add: copy_def failstop_fs_call)

lemma failstop_copytree: "failstop (copytree os p q b)"
  by (simp add: copytree_def failstop_fs_call)

lemma failstop_move: "failstop (move os p q)"
  by (simp add: move_def failstop_fs_call)

lemma failstop_mkdirp: "failstop (mkdirp os p)"
  by (auto simp: failstop_def mkdirp_def emit_def tail_ok_def
           split: prod.splits option.splits if_splits)

lemma failstop_rmr: "failstop (rmr os p)"
  by (auto simp: failstop_def rmr_def emit_def tail_ok_def
           split: prod.splits option.splits if_splits)

lemma failstop_sh: "failstop (sh os cmd env cwd)"
  unfolding failstop_def sh_def Let_def emit_def tail_ok_def
  by (auto split: prod.splits outcome.splits if_splits)

lemma failstop_seqs:
  assumes "\<And>f. f \<in> set fs \<Longrightarrow> failstop f"
  shows "failstop (seqs fs)"
  using assms
proof (induction fs)
  case Nil
  show ?case by (auto simp: failstop_def tail_ok_def)
next
  case (Cons f fs)
  have hf: "failstop f" using Cons.prems by simp
  have hfs: "failstop (seqs fs)" using Cons by simp
  show ?case
  proof (rule failstopI)
    fix s s' st
    assume run: "seqs (f # fs) s = (s', st)"
    obtain s1 st1 where f1: "f s = (s1, st1)" by (cases "f s")
    from hf f1 obtain new1 where n1: "trace s1 = trace s @ new1" "tail_ok new1 st1"
      unfolding failstop_def by blast
    show "\<exists>new. trace s' = trace s @ new \<and> tail_ok new st"
    proof (cases st1)
      case Continue
      with run f1 have r2: "seqs fs s1 = (s', st)" by simp
      from hfs r2 obtain new2 where n2: "trace s' = trace s1 @ new2" "tail_ok new2 st"
        unfolding failstop_def by blast
      from n1 Continue have "\<forall>e\<in>set new1. \<not> is_failure e" by (simp add: tail_ok_Continue)
      with n2 have "tail_ok (new1 @ new2) st" by (simp add: tail_ok_append)
      with n1 n2 show ?thesis by auto
    next
      case (Exit n)
      with run f1 have "s' = s1" "st = st1" by simp_all
      with n1 show ?thesis by auto
    next
      case (Raise e)
      with run f1 have "s' = s1" "st = st1" by simp_all
      with n1 show ?thesis by auto
    qed
  qed
qed

lemma failstop_seqs_all: "list_all failstop fs \<Longrightarrow> failstop (seqs fs)"
  by (rule failstop_seqs) (simp add: list_all_iff)

lemma failstop_if_then: "failstop body \<Longrightarrow> failstop (if_then c body)"
  by (auto simp: failstop_def if_then_def tail_ok_def split: if_splits)

lemma failstop_bind_option:
  assumes "\<And>v. failstop (body v)"
  shows "failstop (\<lambda>s. case g s of None \<Rightarrow> raise e s | Some v \<Rightarrow> body v s)"
proof (rule failstopI)
  fix s s' st
  assume run: "(case g s of None \<Rightarrow> raise e s | Some v \<Rightarrow> body v s) = (s', st)"
  show "\<exists>new. trace s' = trace s @ new \<and> tail_ok new st"
  proof (cases "g s")
    case None
    with run have "raise e s = (s', st)" by simp
    then show ?thesis using failstop_raise[of e] unfolding failstop_def by blast
  next
    case (Some v)
    with run have "body v s = (s', st)" by simp
    then show ?thesis using assms[of v] unfolding failstop_def by blast
  qed
qed

lemma failstop_Let_top: "failstop (body v) \<Longrightarrow> failstop (Let v body)"
  by simp

lemma failstop_Let_lam:
  assumes "\<And>x. failstop (\<lambda>s. body x s)"
  shows "failstop (\<lambda>s. Let (g s) (\<lambda>x. body x s))"
  using assms unfolding failstop_def Let_def by blast

lemma failstop_case_list:
  assumes "failstop a" "\<And>x xs. failstop (b x xs)"
  shows "failstop (case l of [] \<Rightarrow> a | x # xs \<Rightarrow> b x xs)"
  using assms by (cases l) auto

lemma failstop_case_opt:
  assumes "failstop a" "\<And>x. failstop (b x)"
  shows "failstop (case l of None \<Rightarrow> a | Some x \<Rightarrow> b x)"
  using assms by (cases l) auto

lemma failstop_case_pair:
  assumes "\<And>x y. failstop (b x y)"
  shows "failstop (case p of (x, y) \<Rightarrow> b x y)"
  using assms by (cases p) auto

lemma failstop_if:
  assumes "failstop a" "failstop b"
  shows "failstop (if c then a else b)"
  using assms by simp

lemma list_all_mapI: "(\<And>x. P (f x)) \<Longrightarrow> list_all P (map f xs)"
  by (simp add: list_all_iff)

lemma list_all_appendI: "list_all P xs \<Longrightarrow> list_all P ys \<Longrightarrow> list_all P (xs @ ys)"
  by simp

lemma list_all_ConsI: "P x \<Longrightarrow> list_all P xs \<Longrightarrow> list_all P (x # xs)"
  by simp

lemma list_all_NilI: "list_all P []"
  by simp

lemma list_all_ifI: "list_all P xs \<Longrightarrow> list_all P ys \<Longrightarrow> list_all P (if c then xs else ys)"
  by simp

lemmas failstop_rules =
  failstop_seqs_all list_all_ConsI list_all_NilI list_all_appendI list_all_mapI list_all_ifI
  failstop_Let_top failstop_Let_lam failstop_bind_option
  failstop_case_list failstop_case_opt failstop_case_pair failstop_if failstop_if_then
  failstop_print failstop_sys_exit failstop_raise failstop_chdir failstop_copy
  failstop_copytree failstop_move failstop_mkdirp failstop_rmr failstop_sh

lemma failstop_sync: "failstop (sync os td p)"
  unfolding sync_def by (intro failstop_rules)

lemma failstop_setup_action: "failstop (setup_action os td p)"
  unfolding setup_action_def by (intro failstop_rules)

lemma failstop_gn_gen_steps: "list_all failstop (gn_gen_steps os p bt d env)"
  unfolding gn_gen_steps_def by (intro failstop_rules)

lemma failstop_ninja_steps: "list_all failstop (ninja_steps os p bt env)"
  unfolding ninja_steps_def by (intro failstop_rules)

lemma failstop_stage_android: "failstop (stage_android os bd bt)"
  unfolding stage_android_def by (intro failstop_rules)

lemma failstop_package_android: "failstop (package_android os bd bt)"
  unfolding package_android_def by (intro failstop_rules failstop_stage_android)

lemma failstop_package_ios: "failstop (package_ios os bd bt)"
  unfolding package_ios_def by (intro failstop_rules)

lemma failstop_build: "failstop (build os td p d)"
  unfolding build_def
  by (intro failstop_rules failstop_gn_gen_steps failstop_ninja_steps
        failstop_package_ios failstop_package_android)

lemma failstop_main: "failstop (main os a)"
  unfolding main_def
  by (intro failstop_rules failstop_build failstop_sync failstop_setup_action)

lemma failure_is_last:
  assumes "tail_ok new st" "new = pre @ Done (Returned rc) # post" "rc \<noteq> 0"
  shows "post = [] \<and> st = Exit rc"
proof -
  have "is_failure (Done (Returned rc))" using assms(3) by simp
  then have "\<not> (\<forall>e\<in>set new. \<not> is_failure e)" using assms(2) by auto
  with assms(1) obtain pre' rc' where p: "new = pre' @ [Done (Returned rc')]"
    "\<forall>e\<in>set pre'. \<not> is_failure e" "st = Exit rc'"
    unfolding tail_ok_def by blast
  have eq: "pre @ Done (Returned rc) # post = pre' @ [Done (Returned rc')]"
    using assms(2) p(1) by simp
  show ?thesis
  proof (cases post rule: rev_cases)
    case Nil
    with eq have "rc = rc'" by simp
    with Nil p show ?thesis by simp
  next
    case (snoc ys y)
    with eq have "pre' = pre @ Done (Returned rc) # ys" by simp
    with p(2) have "\<not> is_failure (Done (Returned rc))" by simp
    with assms(3) show ?thesis by simp
  qed
qed

section \<open>A faithful log: every statement of the script\<close>

lemma replay_append:
  "replay os xs w = Some w1 \<Longrightarrow> replay os (xs @ ys) w = replay os ys w1"
  by (induction os xs w rule: replay.induct) (auto split: prod.splits if_splits)

lemma replay_Done_last:
  "replay os (pre @ [Done r]) w = Some w' \<Longrightarrow>
   \<exists>pre' cmd env cwd w1. pre = pre' @ [Run cmd env cwd] \<and> replay os pre' w = Some w1 \<and>
      check_call os cmd env cwd w1 = (w', r)"
proof (induction os pre w rule: replay.induct)
  case (1 os w)
  then show ?case by simp
next
  case (2 os m es w)
  then obtain pre' cmd env cwd w1 where "es = pre' @ [Run cmd env cwd]"
    "replay os pre' w = Some w1" "check_call os cmd env cwd w1 = (w', r)" by auto
  then have "Print m # es = (Print m # pre') @ [Run cmd env cwd] \<and>
     replay os (Print m # pre') w = Some w1 \<and> check_call os cmd env cwd w1 = (w', r)" by simp
  then show ?case by blast
next
  case (3 os cmd env cwd0 r0 es w)
  obtain wa ra where c: "check_call os cmd env cwd0 w = (wa, ra)"
    by (cases "check_call os cmd env cwd0 w")
  with 3(2) have eq: "ra = r0" and rest: "replay os (es @ [Done r]) wa = Some w'"
    by (auto split: if_splits)
  from 3(1)[OF c[symmetric] eq rest]
  obtain pre' cmd' env' cwd' w1 where p: "es = pre' @ [Run cmd' env' cwd']"
    "replay os pre' wa = Some w1" "check_call os cmd' env' cwd' w1 = (w', r)" by blast
  have "Run cmd env cwd0 # Done r0 # es = (Run cmd env cwd0 # Done r0 # pre') @ [Run cmd' env' cwd'] \<and>
     replay os (Run cmd env cwd0 # Done r0 # pre') w = Some w1 \<and>
     check_call os cmd' env' cwd' w1 = (w', r)"
    using p c eq by simp
  then show ?case by blast
qed (auto split: prod.splits if_splits intro: exI[of _ "[]"])


lemma loggedI:
  assumes "\<And>s s' st. f s = (s', st) \<Longrightarrow>
             \<exists>new. trace s' = trace s @ new \<and> replay os new (world s) = Some (world s')"
  shows "logged os f"
  using assms unfolding logged_def by blast

lemma logged_print: "logged os (print m)"
  by (auto simp: logged_def print_def emit_def)

lemma logged_sys_exit: "logged os (sys_exit n)"
  by (auto simp: logged_def sys_exit_def)

lemma logged_raise: "logged os (raise e)"
  by (auto simp: logged_def raise_def)

lemma logged_chdir: "logged os (chdir os p)"
  by (auto simp: logged_def chdir_def fs_call_def emit_def split: prod.splits option.splits)

lemma logged_copy: "logged os (copy os p q)"
  by (auto simp: logged_def copy_def fs_call_def emit_def split: prod.splits option.splits)

lemma logged_copytree: "logged os (copytree os p q b)"
  by (auto simp: logged_def copytree_def fs_call_def emit_def split: prod.splits option.splits)

lemma logged_move: "logged os (move os p q)"
  by (auto simp: logged_def move_def fs_call_def emit_def split: prod.splits option.splits)

lemma logged_mkdirp: "logged os (mkdirp os p)"
  by (auto simp: logged_def mkdirp_def emit_def split: prod.splits option.splits if_splits)

lemma logged_rmr: "logged os (rmr os p)"
  by (auto simp: logged_def rmr_def emit_def split: prod.splits option.splits if_splits)

lemma logged_sh: "logged os (sh os cmd env cwd)"
  unfolding logged_def sh_def Let_def emit_def
  by (auto split: prod.splits outcome.splits if_splits)

lemma logged_seqs:
  assumes "\<And>f. f \<in> set fs \<Longrightarrow> logged os f"
  shows "logged os (seqs fs)"
  using assms
proof (induction fs)
  case Nil
  show ?case by (auto simp: logged_def)
next
  case (Cons f fs)
  have hf: "logged os f" using Cons.prems by simp
  have hfs: "logged os (seqs fs)" using Cons by simp
  show ?case
  proof (rule loggedI)
    fix s s' st
    assume run: "seqs (f # fs) s = (s', st)"
    obtain s1 st1 where f1: "f s = (s1, st1)" by (cases "f s")
    from hf f1 obtain new1 where n1: "trace s1 = trace s @ new1"
      "replay os new1 (world s) = Some (world s1)"
      unfolding logged_def by blast
    show "\<exists>new. trace s' = trace s @ new \<and> replay os new (world s) = Some (world s')"
    proof (cases st1)
      case Continue
      with run f1 have r2: "seqs fs s1 = (s', st)" by simp
      from hfs r2 obtain new2 where n2: "trace s' = trace s1 @ new2"
        "replay os new2 (world s1) = Some (world s')"
        unfolding logged_def by blast
      have "replay os (new1 @ new2) (world s) = Some (world s')"
        using replay_append[OF n1(2), of new2] n2(2) by simp
      with n1 n2 show ?thesis by auto
    next
      case (Exit n)
      with run f1 have "s' = s1" "st = st1" by simp_all
      with n1 show ?thesis by auto
    next
      case (Raise e)
      with run f1 have "s' = s1" "st = st1" by simp_all
      with n1 show ?thesis by auto
    qed
  qed
qed

lemma logged_seqs_all: "list_all (logged os) fs \<Longrightarrow> logged os (seqs fs)"
  by (rule logged_seqs) (simp add: list_all_iff)

lemma logged_if_then: "logged os body \<Longrightarrow> logged os (if_then c body)"
  by (auto simp: logged_def if_then_def split: if_splits)

lemma logged_bind_option:
  assumes "\<And>v. logged os (body v)"
  shows "logged os (\<lambda>s. case g s of None \<Rightarrow> raise e s | Some v \<Rightarrow> body v s)"
proof (rule loggedI)
  fix s s' st
  assume run: "(case g s of None \<Rightarrow> raise e s | Some v \<Rightarrow> body v s) = (s', st)"
  show "\<exists>new. trace s' = trace s @ new \<and> replay os new (world s) = Some (world s')"
  proof (cases "g s")
    case None
    with run have "raise e s = (s', st)" by simp
    then show ?thesis using logged_raise[of os e] unfolding logged_def by blast
  next
    case (Some v)
    with run have "body v s = (s', st)" by simp
    then show ?thesis using assms[of v] unfolding logged_def by blast
  qed
qed

lemma logged_Let_top: "logged os (body v) \<Longrightarrow> logged os (Let v body)"
  by simp

lemma logged_Let_lam:
  assumes "\<And>x. logged os (\<lambda>s. body x s)"
  shows "logged os (\<lambda>s. Let (g s) (\<lambda>x. body x s))"
  using assms unfolding logged_def Let_def by blast

lemma logged_case_list:
  assumes "logged os a" "\<And>x xs. logged os (b x xs)"
  shows "logged os (case l of [] \<Rightarrow> a | x # xs \<Rightarrow> b x xs)"
  using assms by (cases l) auto

lemma logged_case_opt:
  assumes "logged os a" "\<And>x. logged os (b x)"
  shows "logged os (case l of None \<Rightarrow> a | Some x \<Rightarrow> b x)"
  using assms by (cases l) auto

lemma logged_case_pair:
  assumes "\<And>x y. logged os (b x y)"
  shows "logged os (case p of (x, y) \<Rightarrow> b x y)"
  using assms by (cases p) auto

lemma logged_if:
  assumes "logged os a" "logged os b"
  shows "logged os (if c then a else b)"
  using assms by simp

lemmas logged_fs_rules =
  logged_seqs_all list_all_ConsI list_all_NilI list_all_appendI list_all_mapI list_all_ifI
  logged_Let_top logged_Let_lam logged_bind_option
  logged_case_list logged_case_opt logged_case_pair logged_if logged_if_then
  logged_print logged_sys_exit logged_raise logged_chdir logged_copy
  logged_copytree logged_move logged_mkdirp logged_rmr

lemmas logged_rules = logged_fs_rules logged_sh

lemma logged_sync: "logged os (sync os td p)"
  unfolding sync_def by (intro logged_rules)

lemma logged_setup_action: "logged os (setup_action os td p)"
  unfolding setup_action_def by (intro logged_rules)

lemma logged_gn_gen_steps: "list_all (logged os) (gn_gen_steps os p bt d env)"
  unfolding gn_gen_steps_def by (intro logged_rules)

lemma logged_ninja_steps: "list_all (logged os) (ninja_steps os p bt env)"
  unfolding ninja_steps_def by (intro logged_rules)

lemma logged_stage_android: "logged os (stage_android os bd bt)"
  unfolding stage_android_def by (intro logged_rules)

lemma logged_package_android: "logged os (package_android os bd bt)"
  unfolding package_android_def by (intro logged_rules logged_stage_android)

lemma logged_package_ios: "logged os (package_ios os bd bt)"
  unfolding package_ios_def by (intro logged_rules)

lemma logged_build: "logged os (build os td p d)"
  unfolding build_def
  by (intro logged_rules logged_gn_gen_steps logged_ninja_steps
        logged_package_ios logged_package_android)

lemma logged_main: "logged os (main os a)"
  unfolding main_def
  by (intro logged_rules logged_build logged_sync logged_setup_action)

section \<open>Lemmas about single statements\<close>

lemma status_case_id:
  "(case x of (s', Continue) \<Rightarrow> (s', Continue) | (s', Exit n) \<Rightarrow> (s', Exit n)
    | (s', Raise e) \<Rightarrow> (s', Raise e)) = x"
  by (cases x; cases "snd x") auto


lemma join2_absolute: "startswith a ''/'' \<Longrightarrow> startswith (join2 a b) ''/''"
  by (cases a) (auto simp: join2_def startswith_def)

lemma path_join_absolute: "startswith a ''/'' \<Longrightarrow> startswith (path_join a bs) ''/''"
  unfolding path_join_def
  by (induction bs arbitrary: a) (auto simp: join2_absolute)




section \<open>The second setup\<close>



text \<open>The in-memory operating system satisfies the assumption \<open>keeps_dirs\<close>.\<close>

lemma resolve_absolute: "startswith p ''/'' \<Longrightarrow> resolve w p = p"
  by (simp add: resolve_def join2_def)


section \<open>The format strings\<close>

lemma percent_plain:
  "CHR ''%'' \<notin> set xs \<Longrightarrow> percent (xs @ ys) args = map_option (\<lambda>r. xs @ r) (percent ys args)"
proof (induction xs arbitrary: ys)
  case Nil
  show ?case by (simp add: option.map_ident)
next
  case (Cons c cs)
  have c: "c \<noteq> CHR ''%''" and cs: "CHR ''%'' \<notin> set cs" using Cons.prems by auto
  show ?case
  proof (cases "cs @ ys")
    case Nil
    then show ?thesis using c by (cases args) auto
  next
    case (Cons d ds)
    have "percent ((c # cs) @ ys) args = map_option (\<lambda>r. c # r) (percent (cs @ ys) args)"
      using c Cons by simp
    also have "\<dots> = map_option (\<lambda>r. c # r) (map_option (\<lambda>r. cs @ r) (percent ys args))"
      using Cons.IH[OF cs] by simp
    finally show ?thesis by (simp add: option.map_comp comp_def)
  qed
qed

lemma percent_no_args: "CHR ''%'' \<notin> set post \<Longrightarrow> percent post [] = Some post"
  using percent_plain[of post "[]" "[]"] by simp

lemma percent_one:
  assumes "CHR ''%'' \<notin> set pre" "CHR ''%'' \<notin> set post"
  shows "percent (pre @ ''%s'' @ post) [a] = Some (pre @ a @ post)"
  using assms by (simp add: percent_plain percent_no_args)

lemma percent_two:
  assumes "CHR ''%'' \<notin> set pre" "CHR ''%'' \<notin> set mid" "CHR ''%'' \<notin> set post"
  shows "percent (pre @ ''%s'' @ mid @ ''%s'' @ post) [a, b] = Some (pre @ a @ mid @ b @ post)"
proof -
  have "percent (pre @ ''%s'' @ mid @ ''%s'' @ post) [a, b]
        = map_option (\<lambda>r. pre @ r) (percent (''%s'' @ mid @ ''%s'' @ post) [a, b])"
    using assms(1) by (rule percent_plain)
  also have "percent (''%s'' @ mid @ ''%s'' @ post) [a, b]
        = map_option (\<lambda>r. a @ r) (percent (mid @ ''%s'' @ post) [b])"
    by simp
  also have "percent (mid @ ''%s'' @ post) [b] = Some (mid @ b @ post)"
    using assms(2,3) by (rule percent_one)
  finally show ?thesis by simp
qed

lemma GN_ANDROID_ARGS_text:
  \<open>GN_ANDROID_ARGS =
     (''--args='' @ [CHR 0x27]
      @ ''rtc_libvpx_build_vp9=true rtc_enable_protobuf=false rtc_include_tests=false is_debug='')
     @ ''%s'' @ ('' target_cpu="'') @ ''%s''
     @ (''" target_os="android" extra_ldflags=["-Wl,-z,common-page-size=4096","-Wl,-z,max-page-size=16384"]''
        @ [CHR 0x27])\<close>
  by (simp add: GN_ANDROID_ARGS_def build_gn_args_def GN_COMMON_ARGS_def GN_ANDROID_ARGS_list_def
        ANDROID_PAGE_SIZE_LDFLAGS_def)

lemma percent_GN_ANDROID_ARGS:
  \<open>percent GN_ANDROID_ARGS [d, cpu] =
     Some (''--args='' @ [CHR 0x27]
           @ ''rtc_libvpx_build_vp9=true rtc_enable_protobuf=false rtc_include_tests=false is_debug=''
           @ d @ '' target_cpu="'' @ cpu
           @ ''" target_os="android" extra_ldflags=["-Wl,-z,common-page-size=4096","-Wl,-z,max-page-size=16384"]''
           @ [CHR 0x27])\<close>
  unfolding GN_ANDROID_ARGS_text
  by (subst percent_two) simp_all

lemma android_gn_gen_cmd_text:
  \<open>android_gn_gen_cmd bt debug cpu =
     Some (''gn gen out/'' @ bt @ ''-'' @ cpu @ '' --args='' @ [CHR 0x27]
           @ ''rtc_libvpx_build_vp9=true rtc_enable_protobuf=false rtc_include_tests=false is_debug=''
           @ (if debug then ''true'' else ''false'') @ '' target_cpu="'' @ cpu
           @ ''" target_os="android" extra_ldflags=["-Wl,-z,common-page-size=4096","-Wl,-z,max-page-size=16384"]''
           @ [CHR 0x27])\<close>
  by (simp add: android_gn_gen_cmd_def percent_GN_ANDROID_ARGS android_gn_out_dir_def
        str_lower_bool_def)

section \<open>The effects of a completed Android build\<close>

lemma emits_sh: "emits (sh os c e d) [Run c e d]"
  unfolding emits_def sh_def Let_def emit_def
  by (auto split: prod.splits outcome.splits if_splits)

lemma emits_rmr: "emits (rmr os p) [Rmtree p]"
  unfolding emits_def rmr_def emit_def
  by (auto split: prod.splits option.splits if_splits)

lemma emits_mkdirp: "emits (mkdirp os p) [Makedirs p]"
  unfolding emits_def mkdirp_def emit_def
  by (auto split: prod.splits option.splits if_splits)

lemma emits_chdir: "emits (chdir os p) [Chdir p]"
  unfolding emits_def chdir_def fs_call_def emit_def
  by (auto split: prod.splits option.splits if_splits)

lemma emits_copy: "emits (copy os p q) [Copy p q]"
  unfolding emits_def copy_def fs_call_def emit_def
  by (auto split: prod.splits option.splits if_splits)

lemma emits_seqs_Nil: "emits (seqs []) []"
  by (simp add: emits_def)

lemma emits_seqs_Cons:
  assumes "emits f xs" "emits (seqs fs) ys"
  shows "emits (seqs (f # fs)) (xs @ ys)"
  unfolding emits_def
proof (intro allI impI)
  fix s s'
  assume run: "seqs (f # fs) s = (s', Continue)"
  obtain s1 st1 where f1: "f s = (s1, st1)" by (cases "f s")
  with run have st1: "st1 = Continue" by (cases st1) auto
  with run f1 have r2: "seqs fs s1 = (s', Continue)" by simp
  from assms(1) f1 st1 have "filter is_effect (trace s1) = filter is_effect (trace s) @ xs"
    unfolding emits_def by blast
  moreover from assms(2) r2 have "filter is_effect (trace s') = filter is_effect (trace s1) @ ys"
    unfolding emits_def by blast
  ultimately show "filter is_effect (trace s') = filter is_effect (trace s) @ xs @ ys" by simp
qed

lemma seqs_append_Continue:
  assumes "seqs (fs @ gs) s = (s', Continue)"
  shows "\<exists>s1. seqs fs s = (s1, Continue) \<and> seqs gs s1 = (s', Continue)"
  using assms
proof (induction fs arbitrary: s)
  case Nil
  then show ?case by simp
next
  case (Cons f fs)
  obtain s1 st1 where f1: "f s = (s1, st1)" by (cases "f s")
  with Cons.prems have st1: "st1 = Continue" by (cases st1) auto
  with Cons.prems f1 have "seqs (fs @ gs) s1 = (s', Continue)" by simp
  from Cons.IH[OF this] f1 st1 show ?case by simp
qed

lemma emits_seqs_append:
  assumes "emits (seqs fs) xs" "emits (seqs gs) ys"
  shows "emits (seqs (fs @ gs)) (xs @ ys)"
  unfolding emits_def
proof (intro allI impI)
  fix s s'
  assume "seqs (fs @ gs) s = (s', Continue)"
  then obtain s1 where a: "seqs fs s = (s1, Continue)" and b: "seqs gs s1 = (s', Continue)"
    using seqs_append_Continue by blast
  from assms(1) a have "filter is_effect (trace s1) = filter is_effect (trace s) @ xs"
    unfolding emits_def by blast
  moreover from assms(2) b have "filter is_effect (trace s') = filter is_effect (trace s1) @ ys"
    unfolding emits_def by blast
  ultimately show "filter is_effect (trace s') = filter is_effect (trace s) @ xs @ ys" by simp
qed

lemma emits_map_sh:
  "emits (seqs (map (\<lambda>x. sh os (c x) e d) xs)) (map (\<lambda>x. Run (c x) e d) xs)"
proof (induction xs)
  case Nil
  show ?case by (simp add: emits_def)
next
  case (Cons x xs)
  have "emits (seqs (sh os (c x) e d # map (\<lambda>x. sh os (c x) e d) xs))
          ([Run (c x) e d] @ map (\<lambda>x. Run (c x) e d) xs)"
    using emits_sh Cons.IH by (rule emits_seqs_Cons)
  then show ?case by (simp only: list.map append_Cons append_Nil)
qed

lemmas emits_rules =
  emits_seqs_Cons emits_seqs_Nil emits_sh emits_rmr emits_mkdirp emits_chdir emits_copy

lemma stage_android_Release:
  "stage_android os bd ''Release'' =
     seqs
      [copy os ''out/Release-arm/lib.java/sdk/android/libwebrtc.jar'' bd,
       seqs [mkdirp os (path_join bd [''armeabi-v7a'']),
             copy os ''out/Release-arm/libjingle_peerconnection_so.so''
               (path_join bd [''armeabi-v7a''])],
       seqs [mkdirp os (path_join bd [''arm64-v8a'']),
             copy os ''out/Release-arm64/libjingle_peerconnection_so.so''
               (path_join bd [''arm64-v8a''])],
       seqs [mkdirp os (path_join bd [''x86'']),
             copy os ''out/Release-x86/libjingle_peerconnection_so.so'' (path_join bd [''x86''])],
       seqs [mkdirp os (path_join bd [''x86_64'']),
             copy os ''out/Release-x64/libjingle_peerconnection_so.so''
               (path_join bd [''x86_64''])]]"
proof -
  have j: "path_join (android_gn_out_dir ''Release'' ''arm'') [''lib.java/sdk/android/libwebrtc.jar'']
             = ''out/Release-arm/lib.java/sdk/android/libwebrtc.jar''"
    "path_join (android_gn_out_dir ''Release'' ''arm'') [''libjingle_peerconnection_so.so'']
             = ''out/Release-arm/libjingle_peerconnection_so.so''"
    "path_join (android_gn_out_dir ''Release'' ''arm64'') [''libjingle_peerconnection_so.so'']
             = ''out/Release-arm64/libjingle_peerconnection_so.so''"
    "path_join (android_gn_out_dir ''Release'' ''x86'') [''libjingle_peerconnection_so.so'']
             = ''out/Release-x86/libjingle_peerconnection_so.so''"
    "path_join (android_gn_out_dir ''Release'' ''x64'') [''libjingle_peerconnection_so.so'']
             = ''out/Release-x64/libjingle_peerconnection_so.so''"
    by (simp_all add: path_join_def join2_def android_gn_out_dir_def startswith_def endswith_def)
  show ?thesis
    unfolding stage_android_def ANDROID_BUILD_CPUS_def ANDROID_CPU_ABI_MAP_def Let_def
    by (simp add: j)
qed

lemma emits_package_android_Release:
  "emits (package_android os bd ''Release'')
     [Copy ''out/Release-arm/lib.java/sdk/android/libwebrtc.jar'' bd,
      Makedirs (path_join bd [''armeabi-v7a'']),
      Copy ''out/Release-arm/libjingle_peerconnection_so.so'' (path_join bd [''armeabi-v7a'']),
      Makedirs (path_join bd [''arm64-v8a'']),
      Copy ''out/Release-arm64/libjingle_peerconnection_so.so'' (path_join bd [''arm64-v8a'']),
      Makedirs (path_join bd [''x86'']),
      Copy ''out/Release-x86/libjingle_peerconnection_so.so'' (path_join bd [''x86'']),
      Makedirs (path_join bd [''x86_64'']),
      Copy ''out/Release-x64/libjingle_peerconnection_so.so'' (path_join bd [''x86_64'']),
      Run ''zip -r android-webrtc.zip *'' None (Some bd)]"
proof -
  have "emits (package_android os bd ''Release'')
     (([Copy ''out/Release-arm/lib.java/sdk/android/libwebrtc.jar'' bd] @
       ([Makedirs (path_join bd [''armeabi-v7a''])] @
        [Copy ''out/Release-arm/libjingle_peerconnection_so.so'' (path_join bd [''armeabi-v7a''])]
        @ []) @
       ([Makedirs (path_join bd [''arm64-v8a''])] @
        [Copy ''out/Release-arm64/libjingle_peerconnection_so.so'' (path_join bd [''arm64-v8a''])]
        @ []) @
       ([Makedirs (path_join bd [''x86''])] @
        [Copy ''out/Release-x86/libjingle_peerconnection_so.so'' (path_join bd [''x86''])] @ []) @
       ([Makedirs (path_join bd [''x86_64''])] @
        [Copy ''out/Release-x64/libjingle_peerconnection_so.so'' (path_join bd [''x86_64''])]
        @ []) @ []) @
      [Run ''zip -r android-webrtc.zip *'' None (Some bd)] @ [])"
    unfolding package_android_def stage_android_Release by (intro emits_rules)
  then show ?thesis by simp
qed

lemma android_release_effects:
  assumes "build os target_dir ''android'' False (start w) = (s', Continue)"
  shows
   \<open>\<exists>env. tools_env (os_environ os w) (path_join target_dir [''depot_tools''])
            (path_join target_dir [''webrtc'', ''android'', ''src'']) ''android'' = Some env \<and>
      filter is_effect (trace s') =
        (let build_dir = path_join target_dir [''build'', ''android''];
             gn_args = (\<lambda>cpu.
               ''--args='' @ [CHR 0x27]
               @ ''rtc_libvpx_build_vp9=true rtc_enable_protobuf=false rtc_include_tests=false is_debug=false''
               @ '' target_cpu="'' @ cpu
               @ ''" target_os="android" extra_ldflags=["-Wl,-z,common-page-size=4096","-Wl,-z,max-page-size=16384"]''
               @ [CHR 0x27])
         in [Chdir (path_join target_dir [''webrtc'', ''android'', ''src'']),
             Rmtree ''out'',
             Run (''gn gen out/Release-arm '' @ gn_args ''arm'') (Some env) None,
             Run (''gn gen out/Release-arm64 '' @ gn_args ''arm64'') (Some env) None,
             Run (''gn gen out/Release-x86 '' @ gn_args ''x86'') (Some env) None,
             Run (''gn gen out/Release-x64 '' @ gn_args ''x64'') (Some env) None,
             Run ''ninja -C out/Release-arm libwebrtc libjingle_peerconnection_so'' (Some env) None,
             Run ''ninja -C out/Release-arm64 libwebrtc libjingle_peerconnection_so'' (Some env) None,
             Run ''ninja -C out/Release-x86 libwebrtc libjingle_peerconnection_so'' (Some env) None,
             Run ''ninja -C out/Release-x64 libwebrtc libjingle_peerconnection_so'' (Some env) None,
             Rmtree build_dir,
             Makedirs build_dir,
             Copy ''out/Release-arm/lib.java/sdk/android/libwebrtc.jar'' build_dir,
             Makedirs (path_join build_dir [''armeabi-v7a'']),
             Copy ''out/Release-arm/libjingle_peerconnection_so.so''
               (path_join build_dir [''armeabi-v7a'']),
             Makedirs (path_join build_dir [''arm64-v8a'']),
             Copy ''out/Release-arm64/libjingle_peerconnection_so.so''
               (path_join build_dir [''arm64-v8a'']),
             Makedirs (path_join build_dir [''x86'']),
             Copy ''out/Release-x86/libjingle_peerconnection_so.so'' (path_join build_dir [''x86'']),
             Makedirs (path_join build_dir [''x86_64'']),
             Copy ''out/Release-x64/libjingle_peerconnection_so.so''
               (path_join build_dir [''x86_64'']),
             Run ''zip -r android-webrtc.zip *'' None (Some build_dir)])\<close>
proof -
  define src where "src = path_join target_dir [''webrtc'', ''android'', ''src'']"
  define bd where "bd = path_join target_dir [''build'', ''android'']"
  define dt where "dt = path_join target_dir [''depot_tools'']"
  define body where "body = (\<lambda>env.
      seqs ([chdir os src, rmr os ''out'']
            @ gn_gen_steps os ''android'' ''Release'' False env
            @ ninja_steps os ''android'' ''Release'' env
            @ [rmr os bd, mkdirp os bd, package_android os bd ''Release'']))"
  have b: "build os target_dir ''android'' False =
      seqs [if_then (\<lambda>s. \<not> os_isdir os src (world s))
              (seqs [print ''WebRTC source not found, did you forget to run --setup?'',
                     sys_exit 1]),
            (\<lambda>s. case tools_env (os_environ os (world s)) dt src ''android'' of
                    None \<Rightarrow> raise (KeyError ''PATH'') s
                  | Some env \<Rightarrow> body env s)]"
    unfolding build_def Let_def src_def bd_def dt_def body_def by simp
  have dir: "os_isdir os src w"
    using assms unfolding b
    by (auto simp: if_then_def print_def sys_exit_def start_def split: if_splits)
  then obtain env where env: "tools_env (os_environ os w) dt src ''android'' = Some env"
    and run: "body env (start w) = (s', Continue)"
    using assms unfolding b
    by (cases "tools_env (os_environ os w) dt src ''android''")
       (auto simp: if_then_def start_def raise_def status_case_id)
  have gn: "gn_gen_steps os ''android'' ''Release'' False env =
              map (\<lambda>cpu. sh os (the (android_gn_gen_cmd ''Release'' False cpu)) (Some env) None)
                [''arm'', ''arm64'', ''x86'', ''x64'']"
    by (simp add: gn_gen_steps_def android_gn_gen_cmd_text ANDROID_BUILD_CPUS_def)
  have nj: "ninja_steps os ''android'' ''Release'' env =
              map (\<lambda>cpu. sh os (''ninja -C '' @ android_gn_out_dir ''Release'' cpu
                                 @ '' libwebrtc libjingle_peerconnection_so'') (Some env) None)
                [''arm'', ''arm64'', ''x86'', ''x64'']"
    by (simp add: ninja_steps_def ANDROID_BUILD_CPUS_def)
  define effects where "effects =
     ([Chdir src] @ [Rmtree ''out''] @ [])
      @ map (\<lambda>cpu. Run (the (android_gn_gen_cmd ''Release'' False cpu)) (Some env) None)
          [''arm'', ''arm64'', ''x86'', ''x64'']
      @ map (\<lambda>cpu. Run (''ninja -C '' @ android_gn_out_dir ''Release'' cpu
                         @ '' libwebrtc libjingle_peerconnection_so'') (Some env) None)
          [''arm'', ''arm64'', ''x86'', ''x64'']
      @ ([Rmtree bd] @ [Makedirs bd] @
         [Copy ''out/Release-arm/lib.java/sdk/android/libwebrtc.jar'' bd,
          Makedirs (path_join bd [''armeabi-v7a'']),
          Copy ''out/Release-arm/libjingle_peerconnection_so.so'' (path_join bd [''armeabi-v7a'']),
          Makedirs (path_join bd [''arm64-v8a'']),
          Copy ''out/Release-arm64/libjingle_peerconnection_so.so'' (path_join bd [''arm64-v8a'']),
          Makedirs (path_join bd [''x86'']),
          Copy ''out/Release-x86/libjingle_peerconnection_so.so'' (path_join bd [''x86'']),
          Makedirs (path_join bd [''x86_64'']),
          Copy ''out/Release-x64/libjingle_peerconnection_so.so'' (path_join bd [''x86_64'']),
          Run ''zip -r android-webrtc.zip *'' None (Some bd)] @ [])"
  have e: "emits (body env) effects"
    unfolding body_def gn nj effects_def
    by (intro emits_seqs_append emits_map_sh emits_rules emits_package_android_Release)
  have "filter is_effect (trace s') = filter is_effect (trace (start w)) @ effects"
    using e run unfolding emits_def by blast
  then have "filter is_effect (trace s') =
        (let build_dir = path_join target_dir [''build'', ''android''];
             gn_args = (\<lambda>cpu.
               ''--args='' @ [CHR 0x27]
               @ ''rtc_libvpx_build_vp9=true rtc_enable_protobuf=false rtc_include_tests=false is_debug=false''
               @ '' target_cpu=\"'' @ cpu
               @ ''\" target_os=\"android\" extra_ldflags=[\"-Wl,-z,common-page-size=4096\",\"-Wl,-z,max-page-size=16384\"]''
               @ [CHR 0x27])
         in [Chdir (path_join target_dir [''webrtc'', ''android'', ''src'']),
             Rmtree ''out'',
             Run (''gn gen out/Release-arm '' @ gn_args ''arm'') (Some env) None,
             Run (''gn gen out/Release-arm64 '' @ gn_args ''arm64'') (Some env) None,
             Run (''gn gen out/Release-x86 '' @ gn_args ''x86'') (Some env) None,
             Run (''gn gen out/Release-x64 '' @ gn_args ''x64'') (Some env) None,
             Run ''ninja -C out/Release-arm libwebrtc libjingle_peerconnection_so'' (Some env) None,
             Run ''ninja -C out/Release-arm64 libwebrtc libjingle_peerconnection_so'' (Some env) None,
             Run ''ninja -C out/Release-x86 libwebrtc libjingle_peerconnection_so'' (Some env) None,
             Run ''ninja -C out/Release-x64 libwebrtc libjingle_peerconnection_so'' (Some env) None,
             Rmtree build_dir,
             Makedirs build_dir,
             Copy ''out/Release-arm/lib.java/sdk/android/libwebrtc.jar'' build_dir,
             Makedirs (path_join build_dir [''armeabi-v7a'']),
             Copy ''out/Release-arm/libjingle_peerconnection_so.so''
               (path_join build_dir [''armeabi-v7a'']),
             Makedirs (path_join build_dir [''arm64-v8a'']),
             Copy ''out/Release-arm64/libjingle_peerconnection_so.so''
               (path_join build_dir [''arm64-v8a'']),
             Makedirs (path_join build_dir [''x86'']),
             Copy ''out/Release-x86/libjingle_peerconnection_so.so'' (path_join build_dir [''x86'']),
             Makedirs (path_join build_dir [''x86_64'']),
             Copy ''out/Release-x64/libjingle_peerconnection_so.so''
               (path_join build_dir [''x86_64'']),
             Run ''zip -r android-webrtc.zip *'' None (Some build_dir)])"
    by (simp add: effects_def start_def Let_def android_gn_gen_cmd_text android_gn_out_dir_def
          src_def bd_def)
  with env show ?thesis unfolding dt_def src_def by blast
qed


section \<open>The staged output directory on the in-memory file system\<close>

lemma startswith_length: "startswith s p \<Longrightarrow> length p \<le> length s"
  unfolding startswith_def by (metis length_take min.cobounded1)

lemma under_self: "under d d"
  by (simp add: under_def)

lemma under_child: "under d (d @ CHR ''/'' # x)"
  by (simp add: under_def startswith_def)

lemma under_length: "under d p \<Longrightarrow> p = d \<or> length d < length p"
  unfolding under_def using startswith_length[of p "d @ ''/''"] by auto

lemma parents_prefix:
  assumes "a \<in> set (parents q)"
  shows "\<exists>rest. q = a @ CHR ''/'' # rest \<and> a \<noteq> []"
proof -
  from assms obtain i where i: "1 \<le> i" "i < length q" "q ! i = CHR ''/''" "a = take i q"
    unfolding parents_def by auto
  have "q = take i q @ q ! i # drop (Suc i) q" using i(2) by (simp add: id_take_nth_drop)
  moreover have "take i q \<noteq> []" using i(1,2) by auto
  ultimately show ?thesis using i(3,4) by metis
qed

lemma parents_not_under: "a \<in> set (parents d) \<Longrightarrow> \<not> under d a"
proof
  assume "a \<in> set (parents d)" and u: "under d a"
  then obtain rest where "d = a @ CHR ''/'' # rest" using parents_prefix by blast
  then have "length a < length d" by simp
  with under_length[OF u] show False by auto
qed

lemma parents_child_under:
  assumes "a \<in> set (parents (d @ CHR ''/'' # x))" "CHR ''/'' \<notin> set x" "under d a"
  shows "a = d"
proof -
  from assms(1) obtain rest where q: "d @ CHR ''/'' # x = a @ CHR ''/'' # rest"
    using parents_prefix by metis
  from under_length[OF assms(3)] show ?thesis
  proof
    assume "a = d" then show ?thesis .
  next
    assume l: "length d < length a"
    from q have "take (length a) (d @ CHR ''/'' # x) = a" by simp
    moreover from q have "(d @ CHR ''/'' # x) ! length a = CHR ''/''"
      by (metis nth_append_length)
    moreover have "(d @ CHR ''/'' # x) ! length a = x ! (length a - length d - 1)"
      using l by (simp add: nth_append nth_Cons')
    moreover have "length a - length d - 1 < length x"
    proof -
      have "length (d @ CHR ''/'' # x) = length (a @ CHR ''/'' # rest)" using q by simp
      then show ?thesis using l by simp
    qed
    ultimately have "CHR ''/'' \<in> set x" by (metis nth_mem)
    with assms(2) show ?thesis by simp
  qed
qed

lemma parents_of_child:
  assumes "startswith p (d @ ''/'')" "d \<noteq> []"
  shows "d \<in> set (parents p)"
proof -
  from assms(1) have t: "take (length d + 1) p = d @ ''/''" by (simp add: startswith_def)
  have len: "length d < length p"
    using startswith_length[OF assms(1)] by simp
  have "take (length d) p = take (length d) (take (length d + 1) p)" by simp
  also have "\<dots> = d" unfolding t by simp
  finally have td: "take (length d) p = d" .
  have "p ! length d = take (length d + 1) p ! length d" by simp
  also have "\<dots> = CHR ''/''" unfolding t by simp
  finally have sl: "p ! length d = CHR ''/''" .
  have "length d \<in> set (filter (\<lambda>i. p ! i = CHR ''/'') [1..<length p])"
    using len sl assms(2) by (cases d) auto
  then have "take (length d) p \<in> set (parents p)" unfolding parents_def by auto
  then show ?thesis using td by simp
qed

lemma sim_rmr_empties:
  assumes "startswith bd ''/''" "sim_wf (world s)" "rmr sim_os bd s = (s', Continue)"
  shows "below_dirs bd (world s') = {} \<and> below_files bd (world s') = {}"
proof -
  let ?w = "world s"
  have q: "resolve ?w bd = bd" using assms(1) by (rule resolve_absolute)
  have bne: "bd \<noteq> []" using assms(1) by (auto simp: startswith_def)
  show ?thesis
  proof (cases "bd \<in> set (sim_files ?w)")
    case True
    then have "rmr sim_os bd s = (emit (Rmtree bd) (s\<lparr>world := ?w\<rparr>), Raise (OSError ENOTDIR))"
      by (simp add: rmr_def sim_os_def sim_rmtree_def q ENOTDIR_def ENOENT_def)
    with assms(3) show ?thesis by simp
  next
    case nf: False
    show ?thesis
    proof (cases "bd \<in> set (sim_dirs ?w)")
      case False
      then have "rmr sim_os bd s = (emit (Rmtree bd) (s\<lparr>world := ?w\<rparr>), Continue)"
        using nf by (simp add: rmr_def sim_os_def sim_rmtree_def q)
      with assms(3) have "world s' = ?w" by (auto simp: emit_def)
      moreover have "\<forall>p. under bd p \<longrightarrow> \<not> sim_exists ?w p"
      proof (intro allI impI notI)
        fix p
        assume u: "under bd p" and e: "sim_exists ?w p"
        have "p \<noteq> bd" using e nf False by (auto simp: sim_exists_def)
        with u have "startswith p (bd @ ''/'')" by (simp add: under_def)
        then have "bd \<in> set (parents p)" using bne by (rule parents_of_child)
        moreover have "p \<in> set (sim_dirs ?w @ sim_files ?w)"
          using e by (auto simp: sim_exists_def)
        ultimately have "bd \<in> set (sim_dirs ?w)" using assms(2) unfolding sim_wf_def by blast
        with False show False by simp
      qed
      ultimately show ?thesis by (auto simp: below_dirs_def below_files_def sim_exists_def)
    next
      case True
      then have "rmr sim_os bd s =
          (emit (Rmtree bd) (s\<lparr>world := ?w\<lparr>sim_dirs := filter (\<lambda>x. \<not> under bd x) (sim_dirs ?w),
               sim_files := filter (\<lambda>x. \<not> under bd x) (sim_files ?w)\<rparr>\<rparr>), Continue)"
        using nf by (simp add: rmr_def sim_os_def sim_rmtree_def q)
      with assms(3) have "world s' = ?w\<lparr>sim_dirs := filter (\<lambda>x. \<not> under bd x) (sim_dirs ?w),
               sim_files := filter (\<lambda>x. \<not> under bd x) (sim_files ?w)\<rparr>"
        by (auto simp: emit_def)
      then show ?thesis by (auto simp: below_dirs_def below_files_def)
    qed
  qed
qed

lemma sim_mkdirp_new:
  assumes "startswith q ''/''" "\<not> sim_exists (world s) q" "mkdirp sim_os q s = (s', Continue)"
  shows "sim_dirs (world s') =
           sim_dirs (world s) @ filter (\<lambda>a. a \<notin> set (sim_dirs (world s))) (parents q) @ [q]
         \<and> sim_files (world s') = sim_files (world s)"
proof -
  let ?w = "world s"
  have q: "resolve ?w q = q" using assms(1) by (rule resolve_absolute)
  show ?thesis
  proof (cases "list_ex (\<lambda>a. a \<in> set (sim_files ?w)) (parents q)")
    case True
    then have "mkdirp sim_os q s = (emit (Makedirs q) (s\<lparr>world := ?w\<rparr>), Raise (OSError ENOTDIR))"
      using assms(2) by (simp add: mkdirp_def sim_os_def sim_makedirs_def q ENOTDIR_def EEXIST_def)
    with assms(3) show ?thesis by simp
  next
    case False
    then have "mkdirp sim_os q s =
        (emit (Makedirs q) (s\<lparr>world := ?w\<lparr>sim_dirs :=
                sim_dirs ?w @ filter (\<lambda>a. a \<notin> set (sim_dirs ?w)) (parents q) @ [q]\<rparr>\<rparr>), Continue)"
      using assms(2) by (simp add: mkdirp_def sim_os_def sim_makedirs_def q)
    with assms(3) have "world s' = ?w\<lparr>sim_dirs :=
                sim_dirs ?w @ filter (\<lambda>a. a \<notin> set (sim_dirs ?w)) (parents q) @ [q]\<rparr>"
      by (auto simp: emit_def)
    then show ?thesis by simp
  qed
qed

lemma sim_copy_into:
  assumes "startswith d ''/''" "d \<in> set (sim_dirs (world s))" "copy sim_os src d s = (s', Continue)"
  shows "sim_dirs (world s') = sim_dirs (world s) \<and>
         set (sim_files (world s')) =
           insert (join2 d (basename (resolve (world s) src))) (set (sim_files (world s)))"
proof -
  let ?w = "world s"
  have q: "resolve ?w d = d" using assms(1) by (rule resolve_absolute)
  have "world s' = fst (sim_copy src d ?w)" "snd (sim_copy src d ?w) = None"
    using assms(3)
    by (auto simp: copy_def fs_call_def sim_os_def emit_def split: prod.splits option.splits)
  then show ?thesis
    using assms(2)
    by (auto simp: sim_copy_def Let_def q split: if_splits)
qed


lemma split_on_nonempty: "split_on d xs \<noteq> []"
  by (induction xs) (auto split: list.splits)

lemma split_on_append: "split_on d (xs @ d # ys) = split_on d xs @ split_on d ys"
  by (induction xs) (auto split: list.splits simp: split_on_nonempty)

lemma split_on_none: "d \<notin> set ys \<Longrightarrow> split_on d ys = [ys]"
  by (induction ys) auto

lemma basename_child: "CHR ''/'' \<notin> set name \<Longrightarrow> basename (x @ CHR ''/'' # name) = name"
  by (simp add: basename_def split_on_append split_on_none)

lemma basename_join2:
  assumes "CHR ''/'' \<notin> set name"
  shows "basename (join2 c (pre @ CHR ''/'' # name)) = name"
proof -
  have "\<exists>x. join2 c (pre @ CHR ''/'' # name) = x @ CHR ''/'' # name"
    unfolding join2_def
    by (metis append.assoc append_Cons)
  then show ?thesis using assms basename_child by metis
qed

lemma endswith_slash: "endswith s ''/'' \<longleftrightarrow> s \<noteq> [] \<and> last s = CHR ''/''"
proof (cases s rule: rev_cases)
  case Nil
  then show ?thesis by (simp add: endswith_def)
next
  case (snoc ys y)
  then show ?thesis by (auto simp: endswith_def)
qed

lemma join2_child:
  assumes "d \<noteq> []" "\<not> endswith d ''/''" "\<not> startswith x ''/''"
  shows "join2 d x = d @ CHR ''/'' # x"
  using assms by (simp add: join2_def)

lemma sim_mkdirp_root:
  assumes "startswith bd ''/''" "below_dirs bd (world s) = {}" "below_files bd (world s) = {}"
    "mkdirp sim_os bd s = (s', Continue)"
  shows "below_dirs bd (world s') = {bd} \<and> below_files bd (world s') = {}"
proof -
  have ne: "\<not> sim_exists (world s) bd"
    using assms(2,3) under_self[of bd] by (auto simp: below_dirs_def below_files_def sim_exists_def)
  from sim_mkdirp_new[OF assms(1) ne assms(4)]
  have d: "sim_dirs (world s') =
             sim_dirs (world s) @ filter (\<lambda>a. a \<notin> set (sim_dirs (world s))) (parents bd) @ [bd]"
    and f: "sim_files (world s') = sim_files (world s)" by simp_all
  have "below_dirs bd (world s') = {bd}"
    using assms(2) parents_not_under[of _ bd] under_self[of bd]
    unfolding below_dirs_def d by auto
  moreover have "below_files bd (world s') = {}" using assms(3) f by (simp add: below_files_def)
  ultimately show ?thesis by simp
qed

lemma sim_mkdirp_child:
  assumes "startswith bd ''/''" "CHR ''/'' \<notin> set x" "bd \<in> set (sim_dirs (world s))"
    "bd @ CHR ''/'' # x \<notin> below_dirs bd (world s)"
    "bd @ CHR ''/'' # x \<notin> below_files bd (world s)"
    "mkdirp sim_os (bd @ CHR ''/'' # x) s = (s', Continue)"
  shows "below_dirs bd (world s') = insert (bd @ CHR ''/'' # x) (below_dirs bd (world s)) \<and>
         below_files bd (world s') = below_files bd (world s) \<and>
         set (sim_dirs (world s)) \<subseteq> set (sim_dirs (world s'))"
proof -
  let ?q = "bd @ CHR ''/'' # x"
  have a: "startswith ?q ''/''" using assms(1) by (cases bd) (auto simp: startswith_def)
  have ne: "\<not> sim_exists (world s) ?q"
    using assms(4,5) under_child[of bd x]
    by (auto simp: below_dirs_def below_files_def sim_exists_def)
  from sim_mkdirp_new[OF a ne assms(6)]
  have d: "sim_dirs (world s') =
             sim_dirs (world s) @ filter (\<lambda>a. a \<notin> set (sim_dirs (world s))) (parents ?q) @ [?q]"
    and f: "sim_files (world s') = sim_files (world s)" by simp_all
  have "below_dirs bd (world s') = insert ?q (below_dirs bd (world s))"
    using parents_child_under[of _ bd x] assms(2,3) under_child[of bd x]
    unfolding below_dirs_def d by auto
  moreover have "below_files bd (world s') = below_files bd (world s)"
    using f by (simp add: below_files_def)
  ultimately show ?thesis using d by auto
qed

lemma sim_copy_below:
  assumes "startswith bd ''/''" "under bd d" "d \<noteq> []" "\<not> endswith d ''/''"
    "d \<in> set (sim_dirs (world s))" "CHR ''/'' \<notin> set name"
    "copy sim_os (pre @ CHR ''/'' # name) d s = (s', Continue)"
  shows "below_dirs bd (world s') = below_dirs bd (world s) \<and>
         below_files bd (world s') = insert (d @ CHR ''/'' # name) (below_files bd (world s)) \<and>
         sim_dirs (world s') = sim_dirs (world s)"
proof -
  have a: "startswith d ''/''"
    using assms(1,2) by (cases bd; cases d) (auto simp: under_def startswith_def)
  have b: "basename (resolve (world s) (pre @ CHR ''/'' # name)) = name"
    unfolding resolve_def using assms(6) by (rule basename_join2)
  have ns: "\<not> startswith name ''/''"
    using assms(6) by (cases name) (auto simp: startswith_def)
  have j: "join2 d name = d @ CHR ''/'' # name" using assms(3,4) ns by (rule join2_child)
  have u: "under bd (d @ CHR ''/'' # name)"
    using assms(2) unfolding under_def startswith_def
    by (auto simp: take_Cons' split: if_splits)
  from sim_copy_into[OF a assms(5,7)] b j
  have d: "sim_dirs (world s') = sim_dirs (world s)"
    and f: "set (sim_files (world s')) = insert (d @ CHR ''/'' # name) (set (sim_files (world s)))"
    by simp_all
  show ?thesis using d f u by (auto simp: below_dirs_def below_files_def)
qed


lemma seqs_Cons_Continue:
  assumes "seqs (f # fs) s = (s', Continue)"
  obtains s1 where "f s = (s1, Continue)" "seqs fs s1 = (s', Continue)"
proof -
  obtain s1 st1 where f1: "f s = (s1, st1)" by (cases "f s")
  with assms have "st1 = Continue" by (cases st1) auto
  with assms f1 that show ?thesis by simp
qed

lemma sim_stage_abi:
  assumes abs: "startswith bd ''/''" and ns: "\<not> endswith bd ''/''"
    and x: "CHR ''/'' \<notin> set x" "x \<noteq> []"
    and bd: "bd \<in> set (sim_dirs (world s))"
    and new: "bd @ CHR ''/'' # x \<notin> below_dirs bd (world s)"
             "bd @ CHR ''/'' # x \<notin> below_files bd (world s)"
    and n: "CHR ''/'' \<notin> set name"
    and run: "seqs [mkdirp sim_os (path_join bd [x]),
                    copy sim_os (pre @ CHR ''/'' # name) (path_join bd [x])] s = (s', Continue)"
  shows "below_dirs bd (world s') = insert (bd @ CHR ''/'' # x) (below_dirs bd (world s)) \<and>
         below_files bd (world s') =
           insert (bd @ CHR ''/'' # x @ CHR ''/'' # name) (below_files bd (world s)) \<and>
         bd \<in> set (sim_dirs (world s'))"
proof -
  have bne: "bd \<noteq> []" using abs by (auto simp: startswith_def)
  have xs: "\<not> startswith x ''/''" using x by (cases x) (auto simp: startswith_def)
  have pj: "path_join bd [x] = bd @ CHR ''/'' # x"
    using join2_child[OF bne ns xs] by (simp add: path_join_def)
  from run obtain s1 where
    m: "mkdirp sim_os (bd @ CHR ''/'' # x) s = (s1, Continue)" and
    r: "seqs [copy sim_os (pre @ CHR ''/'' # name) (bd @ CHR ''/'' # x)] s1 = (s', Continue)"
    unfolding pj by (rule seqs_Cons_Continue)
  from r obtain s2 where
    c: "copy sim_os (pre @ CHR ''/'' # name) (bd @ CHR ''/'' # x) s1 = (s2, Continue)" and
    e: "seqs [] s2 = (s', Continue)"
    by (rule seqs_Cons_Continue)
  have s2: "s2 = s'" using e by simp
  from sim_mkdirp_child[OF abs x(1) bd new m]
  have d1: "below_dirs bd (world s1) = insert (bd @ CHR ''/'' # x) (below_dirs bd (world s))"
    and f1: "below_files bd (world s1) = below_files bd (world s)"
    and sub: "set (sim_dirs (world s)) \<subseteq> set (sim_dirs (world s1))" by simp_all
  have in1: "bd @ CHR ''/'' # x \<in> set (sim_dirs (world s1))"
    using d1 by (auto simp: below_dirs_def)
  have ne: "\<not> endswith (bd @ CHR ''/'' # x) ''/''"
    using x by (auto simp: endswith_slash) (metis last_in_set)
  from sim_copy_below[OF abs under_child _ ne in1 n c]
  have "below_dirs bd (world s2) = below_dirs bd (world s1)"
    "below_files bd (world s2) =
       insert ((bd @ CHR ''/'' # x) @ CHR ''/'' # name) (below_files bd (world s1))"
    "sim_dirs (world s2) = sim_dirs (world s1)" by simp_all
  then show ?thesis using d1 f1 sub bd s2 by auto
qed

lemma not_endswith_build_dir: "\<not> endswith (path_join target_dir [''build'', ''android'']) ''/''"
  by (auto simp: path_join_def join2_def endswith_slash startswith_def)

lemma sim_staged_output:
  assumes abs: "startswith bd ''/''" and ns: "\<not> endswith bd ''/''"
    and t: "sim_wf (world s)"
    and run: "seqs [rmr sim_os bd, mkdirp sim_os bd, stage_android sim_os bd ''Release''] s
                = (s', Continue)"
  shows "below_dirs bd (world s') =
           {bd, path_join bd [''armeabi-v7a''], path_join bd [''arm64-v8a''],
            path_join bd [''x86''], path_join bd [''x86_64'']} \<and>
         below_files bd (world s') =
           {path_join bd [''libwebrtc.jar''],
            path_join bd [''armeabi-v7a'', ''libjingle_peerconnection_so.so''],
            path_join bd [''arm64-v8a'', ''libjingle_peerconnection_so.so''],
            path_join bd [''x86'', ''libjingle_peerconnection_so.so''],
            path_join bd [''x86_64'', ''libjingle_peerconnection_so.so'']}"
proof -
  have bne: "bd \<noteq> []" using abs by (auto simp: startswith_def)
  have pj1: "path_join bd [x] = bd @ CHR ''/'' # x" if "\<not> startswith x ''/''" for x
    using join2_child[OF bne ns that] by (simp add: path_join_def)
  have pj2: "path_join bd [x, y] = bd @ CHR ''/'' # x @ CHR ''/'' # y"
    if "\<not> startswith x ''/''" "x \<noteq> []" "last x \<noteq> CHR ''/''" "\<not> startswith y ''/''" for x y
  proof -
    have "join2 bd x = bd @ CHR ''/'' # x" using join2_child[OF bne ns that(1)] .
    moreover have "join2 (bd @ CHR ''/'' # x) y = (bd @ CHR ''/'' # x) @ CHR ''/'' # y"
      using that by (intro join2_child) (auto simp: endswith_slash)
    ultimately show ?thesis by (simp add: path_join_def)
  qed
  from run obtain s1 where r1: "rmr sim_os bd s = (s1, Continue)" and
    run1: "seqs [mkdirp sim_os bd, stage_android sim_os bd ''Release''] s1 = (s', Continue)"
    by (rule seqs_Cons_Continue)
  from run1 obtain s2 where r2: "mkdirp sim_os bd s1 = (s2, Continue)" and
    run2: "seqs [stage_android sim_os bd ''Release''] s2 = (s', Continue)"
    by (rule seqs_Cons_Continue)
  from run2 obtain s8 where run2': "stage_android sim_os bd ''Release'' s2 = (s8, Continue)"
    and e8: "seqs [] s8 = (s', Continue)"
    by (rule seqs_Cons_Continue)
  have s8: "s8 = s'" using e8 by simp
  note run2'' = run2'[unfolded stage_android_Release]
  from run2'' obtain s3 where
    r3: "copy sim_os ''out/Release-arm/lib.java/sdk/android/libwebrtc.jar'' bd s2 = (s3, Continue)" and
    run3: "seqs
        [seqs [mkdirp sim_os (path_join bd [''armeabi-v7a'']),
               copy sim_os ''out/Release-arm/libjingle_peerconnection_so.so''
                 (path_join bd [''armeabi-v7a''])],
         seqs [mkdirp sim_os (path_join bd [''arm64-v8a'']),
               copy sim_os ''out/Release-arm64/libjingle_peerconnection_so.so''
                 (path_join bd [''arm64-v8a''])],
         seqs [mkdirp sim_os (path_join bd [''x86'']),
               copy sim_os ''out/Release-x86/libjingle_peerconnection_so.so''
                 (path_join bd [''x86''])],
         seqs [mkdirp sim_os (path_join bd [''x86_64'']),
               copy sim_os ''out/Release-x64/libjingle_peerconnection_so.so''
                 (path_join bd [''x86_64''])]] s3 = (s', Continue)"
    unfolding s8 by (rule seqs_Cons_Continue)
  from run3 obtain s4 where
    r4: "seqs [mkdirp sim_os (path_join bd [''armeabi-v7a'']),
               copy sim_os ''out/Release-arm/libjingle_peerconnection_so.so''
                 (path_join bd [''armeabi-v7a''])] s3 = (s4, Continue)" and
    run4: "seqs
        [seqs [mkdirp sim_os (path_join bd [''arm64-v8a'']),
               copy sim_os ''out/Release-arm64/libjingle_peerconnection_so.so''
                 (path_join bd [''arm64-v8a''])],
         seqs [mkdirp sim_os (path_join bd [''x86'']),
               copy sim_os ''out/Release-x86/libjingle_peerconnection_so.so''
                 (path_join bd [''x86''])],
         seqs [mkdirp sim_os (path_join bd [''x86_64'']),
               copy sim_os ''out/Release-x64/libjingle_peerconnection_so.so''
                 (path_join bd [''x86_64''])]] s4 = (s', Continue)"
    by (rule seqs_Cons_Continue)
  from run4 obtain s5 where
    r5: "seqs [mkdirp sim_os (path_join bd [''arm64-v8a'']),
               copy sim_os ''out/Release-arm64/libjingle_peerconnection_so.so''
                 (path_join bd [''arm64-v8a''])] s4 = (s5, Continue)" and
    run5: "seqs
        [seqs [mkdirp sim_os (path_join bd [''x86'']),
               copy sim_os ''out/Release-x86/libjingle_peerconnection_so.so''
                 (path_join bd [''x86''])],
         seqs [mkdirp sim_os (path_join bd [''x86_64'']),
               copy sim_os ''out/Release-x64/libjingle_peerconnection_so.so''
                 (path_join bd [''x86_64''])]] s5 = (s', Continue)"
    by (rule seqs_Cons_Continue)
  from run5 obtain s6 where
    r6: "seqs [mkdirp sim_os (path_join bd [''x86'']),
               copy sim_os ''out/Release-x86/libjingle_peerconnection_so.so''
                 (path_join bd [''x86''])] s5 = (s6, Continue)" and
    run6: "seqs
        [seqs [mkdirp sim_os (path_join bd [''x86_64'']),
               copy sim_os ''out/Release-x64/libjingle_peerconnection_so.so''
                 (path_join bd [''x86_64''])]] s6 = (s', Continue)"
    by (rule seqs_Cons_Continue)
  from run6 obtain s7 where
    r7: "seqs [mkdirp sim_os (path_join bd [''x86_64'']),
               copy sim_os ''out/Release-x64/libjingle_peerconnection_so.so''
                 (path_join bd [''x86_64''])] s6 = (s7, Continue)" and
    run7: "seqs [] s7 = (s', Continue)"
    by (rule seqs_Cons_Continue)
  have s7: "s7 = s'" using run7 by simp
  from sim_rmr_empties[OF abs t r1]
  have e1: "below_dirs bd (world s1) = {}" "below_files bd (world s1) = {}" by simp_all
  from sim_mkdirp_root[OF abs e1 r2]
  have e2: "below_dirs bd (world s2) = {bd}" "below_files bd (world s2) = {}" by simp_all
  have in2: "bd \<in> set (sim_dirs (world s2))" using e2(1) by (auto simp: below_dirs_def)
  have r3': "copy sim_os (''out/Release-arm/lib.java/sdk/android'' @ CHR ''/'' # ''libwebrtc.jar'') bd s2
               = (s3, Continue)"
    using r3 by simp
  from sim_copy_below[OF abs under_self bne ns in2 _ r3']
  have e3: "below_dirs bd (world s3) = {bd}" "below_files bd (world s3) = {bd @ ''/libwebrtc.jar''}"
    "bd \<in> set (sim_dirs (world s3))"
    using e2 in2 by simp_all
  have r4': "seqs [mkdirp sim_os (path_join bd [''armeabi-v7a'']),
               copy sim_os (''out/Release-arm'' @ CHR ''/'' # ''libjingle_peerconnection_so.so'')
                 (path_join bd [''armeabi-v7a''])] s3 = (s4, Continue)"
    using r4 by simp
  from sim_stage_abi[OF abs ns _ _ e3(3) _ _ _ r4']
  have e4: "below_dirs bd (world s4) = {bd, bd @ ''/armeabi-v7a''}"
    "below_files bd (world s4) =
       {bd @ ''/libwebrtc.jar'', bd @ ''/armeabi-v7a/libjingle_peerconnection_so.so''}"
    "bd \<in> set (sim_dirs (world s4))"
    using e3 by auto
  have r5': "seqs [mkdirp sim_os (path_join bd [''arm64-v8a'']),
               copy sim_os (''out/Release-arm64'' @ CHR ''/'' # ''libjingle_peerconnection_so.so'')
                 (path_join bd [''arm64-v8a''])] s4 = (s5, Continue)"
    using r5 by simp
  from sim_stage_abi[OF abs ns _ _ e4(3) _ _ _ r5']
  have e5: "below_dirs bd (world s5) = {bd, bd @ ''/armeabi-v7a'', bd @ ''/arm64-v8a''}"
    "below_files bd (world s5) =
       {bd @ ''/libwebrtc.jar'', bd @ ''/armeabi-v7a/libjingle_peerconnection_so.so'',
        bd @ ''/arm64-v8a/libjingle_peerconnection_so.so''}"
    "bd \<in> set (sim_dirs (world s5))"
    using e4 by auto
  have r6': "seqs [mkdirp sim_os (path_join bd [''x86'']),
               copy sim_os (''out/Release-x86'' @ CHR ''/'' # ''libjingle_peerconnection_so.so'')
                 (path_join bd [''x86''])] s5 = (s6, Continue)"
    using r6 by simp
  from sim_stage_abi[OF abs ns _ _ e5(3) _ _ _ r6']
  have e6: "below_dirs bd (world s6) =
       {bd, bd @ ''/armeabi-v7a'', bd @ ''/arm64-v8a'', bd @ ''/x86''}"
    "below_files bd (world s6) =
       {bd @ ''/libwebrtc.jar'', bd @ ''/armeabi-v7a/libjingle_peerconnection_so.so'',
        bd @ ''/arm64-v8a/libjingle_peerconnection_so.so'',
        bd @ ''/x86/libjingle_peerconnection_so.so''}"
    "bd \<in> set (sim_dirs (world s6))"
    using e5 by auto
  have r7': "seqs [mkdirp sim_os (path_join bd [''x86_64'']),
               copy sim_os (''out/Release-x64'' @ CHR ''/'' # ''libjingle_peerconnection_so.so'')
                 (path_join bd [''x86_64''])] s6 = (s7, Continue)"
    using r7 by simp
  from sim_stage_abi[OF abs ns _ _ e6(3) _ _ _ r7']
  have e7: "below_dirs bd (world s7) =
       {bd, bd @ ''/armeabi-v7a'', bd @ ''/arm64-v8a'', bd @ ''/x86'', bd @ ''/x86_64''}"
    "below_files bd (world s7) =
       {bd @ ''/libwebrtc.jar'', bd @ ''/armeabi-v7a/libjingle_peerconnection_so.so'',
        bd @ ''/arm64-v8a/libjingle_peerconnection_so.so'',
        bd @ ''/x86/libjingle_peerconnection_so.so'',
        bd @ ''/x86_64/libjingle_peerconnection_so.so''}"
    using e6 by auto
  have names:
    "path_join bd [''armeabi-v7a''] = bd @ ''/armeabi-v7a''"
    "path_join bd [''arm64-v8a''] = bd @ ''/arm64-v8a''"
    "path_join bd [''x86''] = bd @ ''/x86''"
    "path_join bd [''x86_64''] = bd @ ''/x86_64''"
    "path_join bd [''libwebrtc.jar''] = bd @ ''/libwebrtc.jar''"
    "path_join bd [''armeabi-v7a'', ''libjingle_peerconnection_so.so'']
       = bd @ ''/armeabi-v7a/libjingle_peerconnection_so.so''"
    "path_join bd [''arm64-v8a'', ''libjingle_peerconnection_so.so'']
       = bd @ ''/arm64-v8a/libjingle_peerconnection_so.so''"
    "path_join bd [''x86'', ''libjingle_peerconnection_so.so'']
       = bd @ ''/x86/libjingle_peerconnection_so.so''"
    "path_join bd [''x86_64'', ''libjingle_peerconnection_so.so'']
       = bd @ ''/x86_64/libjingle_peerconnection_so.so''"
    by (simp_all add: pj1 pj2 startswith_def)
  show ?thesis using e7 s7 unfolding names by simp
qed


section \<open>The output directory that a build on the in-memory file system zips\<close>

lemma parents_trans:
  assumes "a \<in> set (parents p)" "p \<in> set (parents n)"
  shows "a \<in> set (parents n)"
proof -
  from assms(2) obtain j where j: "1 \<le> j" "j < length n" "n ! j = CHR ''/''" "p = take j n"
    unfolding parents_def by auto
  from assms(1) obtain i where i: "1 \<le> i" "i < length p" "p ! i = CHR ''/''" "a = take i p"
    unfolding parents_def by auto
  have ij: "i < j" using i(2) j(2,4) by simp
  have "a = take i n" using i(4) j(4) ij by (simp add: min_def)
  moreover have "n ! i = CHR ''/''" using i(3) j(4) ij by simp
  moreover have "i < length n" using ij j(2) by simp
  ultimately show ?thesis using i(1) unfolding parents_def by auto
qed

lemma parents_under:
  assumes "a \<in> set (parents p)" "under q a"
  shows "under q p"
proof -
  from assms(1) obtain rest where p: "p = a @ CHR ''/'' # rest" using parents_prefix by blast
  from assms(2) show ?thesis
    unfolding under_def
  proof
    assume "a = q"
    then show "p = q \<or> startswith p (q @ ''/'')" using p by (simp add: startswith_def)
  next
    assume "startswith a (q @ ''/'')"
    then have "take (length (q @ ''/'')) a = q @ ''/''" by (simp add: startswith_def)
    moreover have "length (q @ ''/'') \<le> length a"
      using \<open>startswith a (q @ ''/'')\<close> by (rule startswith_length)
    ultimately have "take (length (q @ ''/'')) p = q @ ''/''" using p by simp
    then show "p = q \<or> startswith p (q @ ''/'')" by (simp add: startswith_def)
  qed
qed

lemma sim_wf_chdir: "sim_wf w \<Longrightarrow> sim_wf (fst (sim_chdir p w))"
  by (auto simp: sim_wf_def sim_chdir_def Let_def)

lemma sim_wf_rmtree:
  assumes "sim_wf w"
  shows "sim_wf (fst (sim_rmtree p w))"
proof -
  have "a \<in> set (filter (\<lambda>x. \<not> under q x) (sim_dirs w))"
    if "x \<in> set (sim_dirs w @ sim_files w)" "\<not> under q x" "a \<in> set (parents x)" for a x q
  proof -
    have "a \<in> set (sim_dirs w)" using assms that(1,3) unfolding sim_wf_def by blast
    moreover have "\<not> under q a" using parents_under[OF that(3)] that(2) by blast
    ultimately show ?thesis by simp
  qed
  then show ?thesis
    unfolding sim_wf_def sim_rmtree_def Let_def using assms[unfolded sim_wf_def]
    by (auto split: if_splits)
qed

lemma sim_wf_check_call:
  assumes "sim_wf w"
  shows "sim_wf (fst (sim_check_call cmd env cwd w))"
proof -
  define base where "base = (case cwd of None \<Rightarrow> sim_cwd w | Some c \<Rightarrow> resolve w c)"
  show ?thesis
  proof (cases "base \<in> set (sim_dirs w)")
    case False
    then show ?thesis using assms by (simp add: sim_check_call_def base_def Let_def)
  next
    case True
    show ?thesis
    proof (cases "sim_script w")
      case Nil
      then show ?thesis using assms True
        by (simp add: sim_check_call_def base_def Let_def sim_wf_def)
    next
      case (Cons e rest)
      obtain r ds fs where e: "e = (r, ds, fs)" by (cases e)
      define new where "new = map (join2 base) ds @ map (join2 base) fs"
      define w' where "w' = w\<lparr>sim_script := rest,
          sim_expect := tl (sim_expect w),
          sim_dirs := sim_dirs w @ filter (\<lambda>a. a \<notin> set (sim_dirs w)) (concat (map parents new))
                      @ map (join2 base) ds,
          sim_files := sim_files w @ map (join2 base) fs\<rparr>"
      have r: "fst (sim_check_call cmd env cwd w) = w' \<or> fst (sim_check_call cmd env cwd w) = w"
        using True Cons e unfolding sim_check_call_def w'_def new_def
        by (simp add: base_def[symmetric] Let_def)
      have dirs: "set (sim_dirs w') =
          set (sim_dirs w) \<union> (\<Union>n\<in>set new. set (parents n)) \<union> set (map (join2 base) ds)"
        unfolding w'_def by auto
      have all: "set (sim_dirs w' @ sim_files w') =
          set (sim_dirs w @ sim_files w) \<union> (\<Union>n\<in>set new. set (parents n)) \<union> set new"
        unfolding w'_def new_def by auto
      have "a \<in> set (sim_dirs w')" if "p \<in> set (sim_dirs w' @ sim_files w')"
        "a \<in> set (parents p)" for p a
      proof -
        from that(1) all consider "p \<in> set (sim_dirs w @ sim_files w)"
          | n where "n \<in> set new" "p \<in> set (parents n)" | "p \<in> set new" by blast
        then show ?thesis
        proof cases
          case 1
          then have "a \<in> set (sim_dirs w)" using assms that(2) unfolding sim_wf_def by blast
          then show ?thesis using dirs by simp
        next
          case 2
          then have "a \<in> set (parents n)" using that(2) parents_trans by blast
          then show ?thesis using dirs 2(1) by blast
        next
          case 3
          then show ?thesis using dirs that(2) by blast
        qed
      qed
      then have "sim_wf w'" unfolding sim_wf_def by blast
      then show ?thesis using r assms by auto
    qed
  qed
qed

lemma preserves_chdir: "preserves sim_wf (chdir sim_os p)"
  unfolding preserves_def chdir_def fs_call_def
  using sim_wf_chdir by (auto simp: sim_os_def emit_def split: prod.splits option.splits) (metis fst_conv)+

lemma preserves_rmr: "preserves sim_wf (rmr sim_os p)"
  unfolding preserves_def rmr_def
  using sim_wf_rmtree by (auto simp: sim_os_def emit_def split: prod.splits option.splits if_splits) (metis fst_conv)+

lemma preserves_sh: "preserves sim_wf (sh sim_os cmd env cwd)"
  unfolding preserves_def sh_def Let_def
  using sim_wf_check_call
  by (auto simp: sim_os_def emit_def split: prod.splits outcome.splits if_splits) (metis fst_conv)+


lemma preserves_raise: "preserves P (raise e)"
  by (simp add: preserves_def raise_def)

lemma preserves_seqs:
  assumes "list_all (preserves P) fs"
  shows "preserves P (seqs fs)"
  using assms
proof (induction fs)
  case Nil
  show ?case by (simp add: preserves_def)
next
  case (Cons f fs)
  have hf: "preserves P f" and hfs: "preserves P (seqs fs)" using Cons by simp_all
  show ?case
    unfolding preserves_def
  proof (intro allI impI)
    fix s s' st
    assume p: "P (world s)" and run: "seqs (f # fs) s = (s', st)"
    obtain s1 st1 where f1: "f s = (s1, st1)" by (cases "f s")
    with hf p have p1: "P (world s1)" unfolding preserves_def by blast
    show "P (world s')"
    proof (cases st1)
      case Continue
      with run f1 have "seqs fs s1 = (s', st)" by simp
      with hfs p1 show ?thesis unfolding preserves_def by blast
    next
      case (Exit n)
      with run f1 p1 show ?thesis by simp
    next
      case (Raise e)
      with run f1 p1 show ?thesis by simp
    qed
  qed
qed

lemma preserves_case_opt:
  assumes "preserves P a" "\<And>x. preserves P (b x)"
  shows "preserves P (case l of None \<Rightarrow> a | Some x \<Rightarrow> b x)"
  using assms by (cases l) auto

lemma preserves_android_compile:
  "preserves sim_wf
     (seqs ([chdir sim_os src, rmr sim_os ''out'']
            @ gn_gen_steps sim_os ''android'' bt d env
            @ ninja_steps sim_os ''android'' bt env))"
proof -
  have g: "gn_gen_steps sim_os ''android'' bt d env =
      map (\<lambda>cpu. case android_gn_gen_cmd bt d cpu of
                   None \<Rightarrow> raise TypeError
                 | Some cmd \<Rightarrow> sh sim_os cmd (Some env) None) ANDROID_BUILD_CPUS"
    by (simp add: gn_gen_steps_def)
  have n: "ninja_steps sim_os ''android'' bt env =
      map (\<lambda>cpu. sh sim_os (''ninja -C '' @ android_gn_out_dir bt cpu
                        @ '' libwebrtc libjingle_peerconnection_so'') (Some env) None)
        ANDROID_BUILD_CPUS"
    by (simp add: ninja_steps_def)
  show ?thesis
    unfolding g n
    by (intro preserves_seqs list_all_appendI list_all_ConsI list_all_NilI list_all_mapI
          preserves_case_opt preserves_raise preserves_chdir preserves_rmr preserves_sh)
qed

lemma sh_run:
  assumes "sh os cmd env cwd s = (s', st)"
  shows "\<exists>r. check_call os cmd env cwd (world s) = (world s', r) \<and>
             trace s' = trace s @ [Print (''Running cmd: '' @ cmd), Run cmd env cwd, Done r]"
  using assms unfolding sh_def Let_def emit_def
  by (auto split: prod.splits outcome.splits if_splits)

lemma android_build_body:
  assumes "build os target_dir ''android'' False (start w) = (s', Continue)"
  shows "\<exists>env. tools_env (os_environ os w) (path_join target_dir [''depot_tools''])
            (path_join target_dir [''webrtc'', ''android'', ''src'']) ''android'' = Some env \<and>
          seqs ([chdir os (path_join target_dir [''webrtc'', ''android'', ''src'']),
                 rmr os ''out'']
                @ gn_gen_steps os ''android'' ''Release'' False env
                @ ninja_steps os ''android'' ''Release'' env
                @ [rmr os (path_join target_dir [''build'', ''android'']),
                   mkdirp os (path_join target_dir [''build'', ''android'']),
                   package_android os (path_join target_dir [''build'', ''android''])
                     ''Release'']) (start w) = (s', Continue)"
proof -
  define src where "src = path_join target_dir [''webrtc'', ''android'', ''src'']"
  define bd where "bd = path_join target_dir [''build'', ''android'']"
  define dt where "dt = path_join target_dir [''depot_tools'']"
  define body where "body = (\<lambda>env.
      seqs ([chdir os src, rmr os ''out'']
            @ gn_gen_steps os ''android'' ''Release'' False env
            @ ninja_steps os ''android'' ''Release'' env
            @ [rmr os bd, mkdirp os bd, package_android os bd ''Release'']))"
  have b: "build os target_dir ''android'' False =
      seqs [if_then (\<lambda>s. \<not> os_isdir os src (world s))
              (seqs [print ''WebRTC source not found, did you forget to run --setup?'',
                     sys_exit 1]),
            (\<lambda>s. case tools_env (os_environ os (world s)) dt src ''android'' of
                    None \<Rightarrow> raise (KeyError ''PATH'') s
                  | Some env \<Rightarrow> body env s)]"
    unfolding build_def Let_def src_def bd_def dt_def body_def by simp
  have dir: "os_isdir os src w"
    using assms unfolding b
    by (auto simp: if_then_def print_def sys_exit_def start_def split: if_splits)
  then have "\<exists>env. tools_env (os_environ os w) dt src ''android'' = Some env \<and>
     body env (start w) = (s', Continue)"
    using assms unfolding b
    by (cases "tools_env (os_environ os w) dt src ''android''")
       (auto simp: if_then_def start_def raise_def status_case_id)
  then show ?thesis unfolding body_def src_def bd_def dt_def .
qed

lemma sim_zipped_output:
  assumes abs: "startswith target_dir ''/''" and wf: "sim_wf w"
    and run: "build sim_os target_dir ''android'' False (start w) = (s', Continue)"
  shows "\<exists>pre r wz.
           trace s' = pre @ [Print ''Running cmd: zip -r android-webrtc.zip *'',
                             Run ''zip -r android-webrtc.zip *'' None
                               (Some (path_join target_dir [''build'', ''android''])),
                             Done r] \<and>
           replay sim_os pre w = Some wz \<and>
           check_call sim_os ''zip -r android-webrtc.zip *'' None
             (Some (path_join target_dir [''build'', ''android''])) wz = (world s', r) \<and>
           below_dirs (path_join target_dir [''build'', ''android'']) wz =
             {path_join target_dir [''build'', ''android''],
              path_join (path_join target_dir [''build'', ''android'']) [''armeabi-v7a''],
              path_join (path_join target_dir [''build'', ''android'']) [''arm64-v8a''],
              path_join (path_join target_dir [''build'', ''android'']) [''x86''],
              path_join (path_join target_dir [''build'', ''android'']) [''x86_64'']} \<and>
           below_files (path_join target_dir [''build'', ''android'']) wz =
             {path_join (path_join target_dir [''build'', ''android'']) [''libwebrtc.jar''],
              path_join (path_join target_dir [''build'', ''android''])
                [''armeabi-v7a'', ''libjingle_peerconnection_so.so''],
              path_join (path_join target_dir [''build'', ''android''])
                [''arm64-v8a'', ''libjingle_peerconnection_so.so''],
              path_join (path_join target_dir [''build'', ''android''])
                [''x86'', ''libjingle_peerconnection_so.so''],
              path_join (path_join target_dir [''build'', ''android''])
                [''x86_64'', ''libjingle_peerconnection_so.so'']}"
proof -
  define src where "src = path_join target_dir [''webrtc'', ''android'', ''src'']"
  define bd where "bd = path_join target_dir [''build'', ''android'']"
  from android_build_body[OF run] obtain env where
    body: "seqs (([chdir sim_os src, rmr sim_os ''out'']
                  @ gn_gen_steps sim_os ''android'' ''Release'' False env
                  @ ninja_steps sim_os ''android'' ''Release'' env)
                 @ [rmr sim_os bd, mkdirp sim_os bd, package_android sim_os bd ''Release''])
             (start w) = (s', Continue)"
    unfolding src_def bd_def by auto
  define compile where "compile = seqs ([chdir sim_os src, rmr sim_os ''out'']
                  @ gn_gen_steps sim_os ''android'' ''Release'' False env
                  @ ninja_steps sim_os ''android'' ''Release'' env)"
  from seqs_append_Continue[OF body] obtain sa where
    a: "compile (start w) = (sa, Continue)" and
    rest: "seqs [rmr sim_os bd, mkdirp sim_os bd, package_android sim_os bd ''Release''] sa
             = (s', Continue)"
    unfolding compile_def by blast
  have wfa: "sim_wf (world sa)"
    using preserves_android_compile[of src "''Release''" False env] a wf
    unfolding preserves_def compile_def start_def by (metis state.select_convs(1))
  have "logged sim_os compile"
    unfolding compile_def
    by (intro logged_rules logged_gn_gen_steps logged_ninja_steps)
  with a obtain na where na: "trace sa = na" "replay sim_os na w = Some (world sa)"
    unfolding logged_def start_def by fastforce
  from rest obtain s1 where r1: "rmr sim_os bd sa = (s1, Continue)" and
    rest1: "seqs [mkdirp sim_os bd, package_android sim_os bd ''Release''] s1 = (s', Continue)"
    by (rule seqs_Cons_Continue)
  from rest1 obtain s2 where r2: "mkdirp sim_os bd s1 = (s2, Continue)" and
    rest2: "seqs [package_android sim_os bd ''Release''] s2 = (s', Continue)"
    by (rule seqs_Cons_Continue)
  from rest2 have pk: "package_android sim_os bd ''Release'' s2 = (s', Continue)"
    by (simp add: status_case_id)
  then obtain s3 where r3: "stage_android sim_os bd ''Release'' s2 = (s3, Continue)" and
    rest3: "seqs [sh sim_os ''zip -r android-webrtc.zip *'' None (Some bd)] s3 = (s', Continue)"
    unfolding package_android_def by (rule seqs_Cons_Continue)
  from rest3 have z: "sh sim_os ''zip -r android-webrtc.zip *'' None (Some bd) s3 = (s', Continue)"
    by (simp add: status_case_id)
  have staged: "seqs [rmr sim_os bd, mkdirp sim_os bd, stage_android sim_os bd ''Release''] sa
                  = (s3, Continue)"
    using r1 r2 r3 by simp
  have "logged sim_os (seqs [rmr sim_os bd, mkdirp sim_os bd, stage_android sim_os bd ''Release''])"
    by (intro logged_rules logged_stage_android)
  with staged obtain nb where nb: "trace s3 = trace sa @ nb"
    "replay sim_os nb (world sa) = Some (world s3)"
    unfolding logged_def by blast
  have rp: "replay sim_os (trace s3) w = Some (world s3)"
    using replay_append[OF na(2), of nb] nb na(1) by simp
  have babs: "startswith bd ''/''" using abs unfolding bd_def by (simp add: path_join_absolute)
  have content: "below_dirs bd (world s3) =
           {bd, path_join bd [''armeabi-v7a''], path_join bd [''arm64-v8a''],
            path_join bd [''x86''], path_join bd [''x86_64'']} \<and>
         below_files bd (world s3) =
           {path_join bd [''libwebrtc.jar''],
            path_join bd [''armeabi-v7a'', ''libjingle_peerconnection_so.so''],
            path_join bd [''arm64-v8a'', ''libjingle_peerconnection_so.so''],
            path_join bd [''x86'', ''libjingle_peerconnection_so.so''],
            path_join bd [''x86_64'', ''libjingle_peerconnection_so.so'']}"
    using sim_staged_output[OF babs _ wfa staged] not_endswith_build_dir
    unfolding bd_def by blast
  from sh_run[OF z] obtain r where
    cc: "check_call sim_os ''zip -r android-webrtc.zip *'' None (Some bd) (world s3)
           = (world s', r)" and
    tr: "trace s' = trace s3 @ [Print (''Running cmd: '' @ ''zip -r android-webrtc.zip *''),
                                Run ''zip -r android-webrtc.zip *'' None (Some bd), Done r]"
    by blast
  from tr have tr': "trace s' = trace s3 @ [Print ''Running cmd: zip -r android-webrtc.zip *'',
                                Run ''zip -r android-webrtc.zip *'' None (Some bd), Done r]"
    by simp
  from tr' rp cc content show ?thesis unfolding bd_def by blast
qed

section \<open>The claims\<close>

text \<open>
  C1 (as amended). For every invocation with no action flag, with both \<open>--setup\<close> and
  \<open>--build\<close>, with no platform flag, with both platform flags, or whose directory does
  not exist, the process prints one diagnostic line and exits with code 1: the trace of
  the run holds that line and nothing else (no external command, no file-system call)
  and the world is unchanged. Two action flags of which one is \<open>--sync\<close> are not
  refused; see the counterexample below.
\<close>

theorem C1_validation_exits_1:
  assumes "\<not> (args_setup a \<or> args_build a \<or> args_sync a) \<or> (args_setup a \<and> args_build a) \<or>
           \<not> (args_ios a \<or> args_android a) \<or> (args_ios a \<and> args_android a) \<or>
           \<not> os_isdir os (args_dir a) w"
  shows "\<exists>msg. main os a (start w) = (\<lparr>world = w, trace = [Print msg]\<rparr>, Exit 1)"
  using assms
  by (auto simp: main_def start_def if_then_def print_def sys_exit_def emit_def)

text \<open>An instance: \<open>/w --build\<close>, with no platform flag.\<close>

theorem C1_validation_witness:
  "\<not> (args_ios (demo_args\<lparr>args_build := True, args_android := False\<rparr>) \<or>
      args_android (demo_args\<lparr>args_build := True, args_android := False\<rparr>)) \<and>
   (\<exists>msg. main sim_os (demo_args\<lparr>args_build := True, args_android := False\<rparr>)
            (start demo_world) =
      (\<lparr>world = demo_world, trace = [Print msg]\<rparr>, Exit 1))"
proof -
  have h: "\<not> (args_ios (demo_args\<lparr>args_build := True, args_android := False\<rparr>) \<or>
      args_android (demo_args\<lparr>args_build := True, args_android := False\<rparr>))"
    by (simp add: demo_args_def)
  then show ?thesis
    using C1_validation_exits_1
      [of "demo_args\<lparr>args_build := True, args_android := False\<rparr>" sim_os demo_world]
    by blast
qed

text \<open>
  The claim as stated fails for two action flags: \<open>/w --setup --sync --ios\<close> passes
  the validation, runs three external commands and exits with code 0.
\<close>

theorem C1_two_actions_counterexample:
  "snd (main sim_os
          (demo_args\<lparr>args_setup := True, args_sync := True, args_ios := True,
                      args_android := False\<rparr>)
          (start demo_world)) = Exit 0 \<and>
   commands (trace (fst (main sim_os
      (demo_args\<lparr>args_setup := True, args_sync := True, args_ios := True,
                  args_android := False\<rparr>)
      (start demo_world)))) =
     [''git clone https://chromium.googlesource.com/chromium/tools/depot_tools.git'',
      ''fetch --nohooks webrtc_ios'',
      ''gclient sync'']"
  by code_simp

text \<open>
  C2 (as amended). When \<open>--sync\<close> and \<open>--build\<close> are both supplied (without \<open>--setup\<close>,
  with exactly one platform flag and an existing directory), the invocation passes the
  validation and only the sync action runs: the run is \<open>sync\<close>, the line that reports
  its completion and \<open>sys.exit(0)\<close>, and it is the run of the same arguments without
  \<open>--build\<close>.
\<close>

theorem C2_sync_wins:
  assumes "args_sync a" "\<not> args_setup a" "args_ios a \<noteq> args_android a"
    "os_isdir os (args_dir a) (world s)"
  shows "main os a s =
           seqs [sync os (os_abspath os (path_join (args_dir a) [''build_webrtc'']) (world s))
                   (if args_ios a then ''ios'' else ''android''),
                 print (''WebRTC sync for '' @ (if args_ios a then ''ios'' else ''android'')
                        @ '' completed in ''
                        @ os_abspath os (path_join (args_dir a) [''build_webrtc'']) (world s)),
                 sys_exit 0] s
         \<and> main os a s = main os (a\<lparr>args_build := False\<rparr>) s"
proof -
  define td where "td = os_abspath os (path_join (args_dir a) [''build_webrtc'']) (world s)"
  define pf where "pf = (if args_ios a then ''ios'' else ''android'')"
  obtain s1 st1 where r: "sync os td pf s = (s1, st1)" by (cases "sync os td pf s")
  have m: "main os b s =
             seqs [sync os td pf,
                   print (''WebRTC sync for '' @ pf @ '' completed in '' @ td),
                   sys_exit 0] s"
    if "args_sync b" "\<not> args_setup b" "args_ios b = args_ios a"
       "args_android b = args_android a" "args_dir b = args_dir a" for b
    using that assms r
    by (cases st1)
       (auto simp: main_def if_then_def Let_def td_def pf_def print_def sys_exit_def)
  have "main os a s =
          seqs [sync os td pf,
                print (''WebRTC sync for '' @ pf @ '' completed in '' @ td),
                sys_exit 0] s"
    using assms by (intro m) simp_all
  moreover have "main os (a\<lparr>args_build := False\<rparr>) s =
          seqs [sync os td pf,
                print (''WebRTC sync for '' @ pf @ '' completed in '' @ td),
                sys_exit 0] s"
    using assms by (intro m) simp_all
  ultimately show ?thesis by (simp add: td_def pf_def)
qed

text \<open>An instance: \<open>/w --sync --build --android\<close> runs as \<open>/w --sync --android\<close>.\<close>

theorem C2_sync_wins_witness:
  "args_sync (demo_args\<lparr>args_sync := True, args_build := True\<rparr>) \<and>
   args_build (demo_args\<lparr>args_sync := True, args_build := True\<rparr>) \<and>
   main sim_os (demo_args\<lparr>args_sync := True, args_build := True\<rparr>) (start demo_world) =
   main sim_os (demo_args\<lparr>args_sync := True, args_build := True, args_build := False\<rparr>)
     (start demo_world)"
proof -
  let ?a = "demo_args\<lparr>args_sync := True, args_build := True\<rparr>"
  have h: "args_sync ?a" "\<not> args_setup ?a" "args_ios ?a \<noteq> args_android ?a"
    by (simp_all add: demo_args_def)
  have b: "args_build ?a" by (simp add: demo_args_def)
  have d: "os_isdir sim_os (args_dir ?a) (world (start demo_world))"
    by code_simp
  have "main sim_os ?a (start demo_world) = main sim_os (?a\<lparr>args_build := False\<rparr>) (start demo_world)"
    using C2_sync_wins[OF h d] by (rule conjunct2)
  with h(1) b show ?thesis by blast
qed

text \<open>
  The claim as stated fails: with \<open>/w --sync --build --android\<close> on a machine that has
  the source tree, the whole run is one \<open>gclient sync -D\<close> and the exit with code 0; no
  step of the build action (no removal of \<open>out\<close>, no \<open>gn gen\<close>, no \<open>ninja\<close>) is in the
  trace.
\<close>

theorem C2_build_does_not_run_counterexample:
  "main sim_os (demo_args\<lparr>args_sync := True, args_build := True\<rparr>) (start demo_world) =
     (\<lparr>world = demo_world\<lparr>sim_cwd := ''/w/build_webrtc/webrtc/android/src''\<rparr>,
       trace =
         [Chdir ''/w/build_webrtc/webrtc/android/src'',
          Print ''Running cmd: gclient sync -D'',
          Run ''gclient sync -D''
            (Some [(''PATH'',
                    ''/bin:/w/build_webrtc/depot_tools:/w/build_webrtc/webrtc/android/src/third_party/android_sdk/public/platform-tools:/w/build_webrtc/webrtc/android/src/third_party/android_sdk/public/tools:/w/build_webrtc/webrtc/android/src/build/android'')])
            None,
          Done (Returned 0),
          Print ''WebRTC sync for android completed in /w/build_webrtc'']\<rparr>,
      Exit 0)"
  by code_simp

text \<open>
  C3. In every run of the script, an external command that ends with a non-zero return
  code is the last event of the trace (nothing is retried, cleaned up or run after it)
  and the process calls \<open>sys.exit\<close> with that code: for an exit code from 1 to 255 the
  exit status of the process is exactly the command's. The code is the command's own:
  the event before it records the command line, \<open>env\<close> and \<open>cwd\<close> with which
  \<open>check_call\<close> was called, on the world that the earlier events of the trace lead
  to, and \<open>check_call\<close> returned that code and left the world the run ends in. And
  whenever \<open>check_call\<close> returns a non-zero code, \<open>sh\<close> records it and ends with
  \<open>sys.exit\<close> of it, and no statement that follows \<open>sh\<close> in a sequence is run.
\<close>

theorem C3_failing_command:
  assumes "main os a (start w) = (s', st)"
    and "trace s' = pre @ Done (Returned rc) # post"
    and "rc \<noteq> 0"
  shows "post = [] \<and> st = Exit rc \<and> exit_code st = rc mod 256 \<and>
         (0 < rc \<and> rc < 256 \<longrightarrow> exit_code st = rc) \<and>
         (\<exists>pre' cmd env cwd w1.
            pre = pre' @ [Run cmd env cwd] \<and> replay os pre' w = Some w1 \<and>
            check_call os cmd env cwd w1 = (world s', Returned rc)) \<and>
         (check_call os cmd0 env0 cwd0 (world s0) = (w0, Returned rc0) \<and> rc0 \<noteq> 0 \<longrightarrow>
            sh os cmd0 env0 cwd0 s0 =
              (s0\<lparr>world := w0,
                   trace := trace s0 @ [Print (''Running cmd: '' @ cmd0), Run cmd0 env0 cwd0,
                                         Done (Returned rc0)]\<rparr>, Exit rc0) \<and>
            seqs (sh os cmd0 env0 cwd0 # rest) s0 = (sh os cmd0 env0 cwd0 s0))"
proof -
  from failstop_main[of os a] assms(1) obtain new
    where n: "trace s' = trace (start w) @ new" "tail_ok new st"
    unfolding failstop_def by blast
  then have "new = pre @ Done (Returned rc) # post" using assms(2) by (simp add: start_def)
  then have last: "post = [] \<and> st = Exit rc"
    using failure_is_last[OF n(2) _ assms(3)] by blast
  from logged_main[of os a] assms(1) obtain new'
    where l: "trace s' = trace (start w) @ new'"
      "replay os new' (world (start w)) = Some (world s')"
    unfolding logged_def by blast
  then have "replay os (pre @ [Done (Returned rc)]) w = Some (world s')"
    using assms(2) last by (simp add: start_def)
  then have call: "\<exists>pre' cmd env cwd w1.
            pre = pre' @ [Run cmd env cwd] \<and> replay os pre' w = Some w1 \<and>
            check_call os cmd env cwd w1 = (world s', Returned rc)"
    by (rule replay_Done_last)
  have one: "check_call os cmd0 env0 cwd0 (world s0) = (w0, Returned rc0) \<and> rc0 \<noteq> 0 \<longrightarrow>
            sh os cmd0 env0 cwd0 s0 =
              (s0\<lparr>world := w0,
                   trace := trace s0 @ [Print (''Running cmd: '' @ cmd0), Run cmd0 env0 cwd0,
                                         Done (Returned rc0)]\<rparr>, Exit rc0) \<and>
            seqs (sh os cmd0 env0 cwd0 # rest) s0 = (sh os cmd0 env0 cwd0 s0)"
    by (simp add: sh_def Let_def emit_def)
  from last call one show ?thesis by (simp add: exit_code_def)
qed

text \<open>
  Instances: \<open>/w --sync --android\<close> where \<open>gclient sync -D\<close> exits with code 7, and
  a sequence that starts with a command that exits with code 7.
\<close>

theorem C3_failing_command_witness:
  "last (trace (fst (main sim_os (demo_args\<lparr>args_sync := True\<rparr>)
                       (start (demo_world\<lparr>sim_script := [(Returned 7, [], [])]\<rparr>)))))
     = Done (Returned 7) \<and>
   exit_code (snd (main sim_os (demo_args\<lparr>args_sync := True\<rparr>)
                     (start (demo_world\<lparr>sim_script := [(Returned 7, [], [])]\<rparr>)))) = 7 \<and>
   (\<exists>pre' cmd env cwd w1.
      butlast (trace (fst (main sim_os (demo_args\<lparr>args_sync := True\<rparr>)
                       (start (demo_world\<lparr>sim_script := [(Returned 7, [], [])]\<rparr>)))))
        = pre' @ [Run cmd env cwd] \<and>
      replay sim_os pre' (demo_world\<lparr>sim_script := [(Returned 7, [], [])]\<rparr>) = Some w1 \<and>
      check_call sim_os cmd env cwd w1 =
        (world (fst (main sim_os (demo_args\<lparr>args_sync := True\<rparr>)
                       (start (demo_world\<lparr>sim_script := [(Returned 7, [], [])]\<rparr>)))),
         Returned 7)) \<and>
   check_call sim_os ''false'' None None
     (world (start (demo_world\<lparr>sim_script := [(Returned 7, [], [])]\<rparr>)))
     = (demo_world, Returned 7) \<and>
   seqs [sh sim_os ''false'' None None, print ''not reached'']
     (start (demo_world\<lparr>sim_script := [(Returned 7, [], [])]\<rparr>))
     = ((start (demo_world\<lparr>sim_script := [(Returned 7, [], [])]\<rparr>))
          \<lparr>world := demo_world,
            trace := [Print ''Running cmd: false'', Run ''false'' None None,
                      Done (Returned 7)]\<rparr>, Exit 7)"
proof -
  let ?W = "demo_world\<lparr>sim_script := [(Returned 7, [], [])]\<rparr>"
  let ?R = "main sim_os (demo_args\<lparr>args_sync := True\<rparr>) (start ?W)"
  have l: "last (trace (fst ?R)) = Done (Returned 7)" by code_simp
  have n: "trace (fst ?R) \<noteq> []" by code_simp
  have t: "trace (fst ?R) = butlast (trace (fst ?R)) @ Done (Returned 7) # []"
    using l n by (metis append_butlast_last_id)
  have r: "?R = (fst ?R, snd ?R)" by simp
  have z: "(7::int) \<noteq> 0" by simp
  have c: "check_call sim_os ''false'' None None (world (start ?W)) = (demo_world, Returned 7)"
    by code_simp
  have t0: "trace (start ?W) = []" by (simp add: start_def)
  note inst = C3_failing_command[OF r t z, of "''false''" None None "start ?W" demo_world 7
                "[print ''not reached'']"]
  have "exit_code (snd ?R) = 7 mod 256" using inst by blast
  then have e: "exit_code (snd ?R) = 7" by simp
  have k: "\<exists>pre' cmd env cwd w1.
      butlast (trace (fst ?R)) = pre' @ [Run cmd env cwd] \<and>
      replay sim_os pre' ?W = Some w1 \<and>
      check_call sim_os cmd env cwd w1 = (world (fst ?R), Returned 7)"
    using inst by blast
  have "sh sim_os ''false'' None None (start ?W) =
          ((start ?W)\<lparr>world := demo_world,
             trace := trace (start ?W) @ [Print (''Running cmd: '' @ ''false''),
                        Run ''false'' None None, Done (Returned 7)]\<rparr>, Exit 7) \<and>
        seqs [sh sim_os ''false'' None None, print ''not reached''] (start ?W)
          = sh sim_os ''false'' None None (start ?W)"
    using inst c z by blast
  then have q: "seqs [sh sim_os ''false'' None None, print ''not reached''] (start ?W)
     = ((start ?W)\<lparr>world := demo_world,
            trace := [Print ''Running cmd: false'', Run ''false'' None None,
                      Done (Returned 7)]\<rparr>, Exit 7)"
    using t0 by simp
  from l e k c q show ?thesis by blast
qed

text \<open>
  C4. For every target directory and platform (and, for build, either mode): when the
  directory \<open>webrtc/<platform>/src\<close> under the target directory does not exist, \<open>sync\<close>
  and \<open>build\<close> print the guidance message and exit with code 1; the world is the one
  they started in and the message is the only event they add to the trace.
\<close>

theorem C4_missing_source:
  assumes "\<not> os_isdir os (path_join target_dir [''webrtc'', platform, ''src'']) (world s)"
  shows "sync os target_dir platform s =
           (s\<lparr>trace := trace s @
                [Print ''WebRTC source not found, did you forget to run --setup?'']\<rparr>,
            Exit 1)
         \<and> build os target_dir platform debug s =
           (s\<lparr>trace := trace s @
                [Print ''WebRTC source not found, did you forget to run --setup?'']\<rparr>,
            Exit 1)"
  using assms
  by (simp add: sync_def build_def Let_def if_then_def print_def sys_exit_def emit_def)

text \<open>An instance: the machine has \<open>/w\<close> and nothing below it.\<close>

theorem C4_missing_source_witness:
  "sync sim_os ''/w/build_webrtc'' ''ios'' (start (demo_world\<lparr>sim_dirs := [''/w'']\<rparr>)) =
     ((start (demo_world\<lparr>sim_dirs := [''/w'']\<rparr>))
        \<lparr>trace := trace (start (demo_world\<lparr>sim_dirs := [''/w'']\<rparr>)) @
           [Print ''WebRTC source not found, did you forget to run --setup?'']\<rparr>,
      Exit 1) \<and>
   build sim_os ''/w/build_webrtc'' ''ios'' True (start (demo_world\<lparr>sim_dirs := [''/w'']\<rparr>)) =
     ((start (demo_world\<lparr>sim_dirs := [''/w'']\<rparr>))
        \<lparr>trace := trace (start (demo_world\<lparr>sim_dirs := [''/w'']\<rparr>)) @
           [Print ''WebRTC source not found, did you forget to run --setup?'']\<rparr>,
      Exit 1)"
proof -
  have "\<not> os_isdir sim_os (path_join ''/w/build_webrtc'' [''webrtc'', ''ios'', ''src''])
            (world (start (demo_world\<lparr>sim_dirs := [''/w'']\<rparr>)))"
    by code_simp
  then show ?thesis by (rule C4_missing_source)
qed



text \<open>
  C6. For mode Release and platform Android, every build that completes has exactly these
  effects, in this order: it enters the source tree, removes \<open>out\<close>, generates the four
  build-output directories \<open>out/Release-arm\<close>, \<open>out/Release-arm64\<close>,
  \<open>out/Release-x86\<close> and \<open>out/Release-x64\<close>, runs \<open>ninja\<close> in each, removes and
  recreates the final output directory, copies one Java archive into it from the first
  architecture's output, and for each CPU creates the subdirectory named by its ABI
  (\<open>armeabi-v7a\<close>, \<open>arm64-v8a\<close>, \<open>x86\<close>, \<open>x86_64\<close>) and copies that
  architecture's shared object into it; then it zips the output directory. The trace is
  a faithful log of the run: replayed from the initial world, with each command handed
  to \<open>check_call\<close> and each file-system call made as recorded, it leads to the world
  the build ends in. On the in-memory file system, for an absolute target directory and
  a world where every entry lies in existing directories, the world on which a
  completed build calls \<open>check_call\<close> for \<open>zip\<close> (the one all earlier events of the
  run lead to) has in the output directory exactly the four ABI directories, one shared
  object in each, and the Java archive, whatever was there before.
\<close>

theorem C6_android_release_build:
  \<open>(build os target_dir ''android'' False (start w) = (s', Continue) \<longrightarrow>
      replay os (trace s') w = Some (world s') \<and>
      (\<exists>env. tools_env (os_environ os w) (path_join target_dir [''depot_tools''])
            (path_join target_dir [''webrtc'', ''android'', ''src'']) ''android'' = Some env \<and>
      filter is_effect (trace s') =
        (let build_dir = path_join target_dir [''build'', ''android''];
             gn_args = (\<lambda>cpu.
               ''--args='' @ [CHR 0x27]
               @ ''rtc_libvpx_build_vp9=true rtc_enable_protobuf=false rtc_include_tests=false is_debug=false''
               @ '' target_cpu="'' @ cpu
               @ ''" target_os="android" extra_ldflags=["-Wl,-z,common-page-size=4096","-Wl,-z,max-page-size=16384"]''
               @ [CHR 0x27])
         in [Chdir (path_join target_dir [''webrtc'', ''android'', ''src'']),
             Rmtree ''out'',
             Run (''gn gen out/Release-arm '' @ gn_args ''arm'') (Some env) None,
             Run (''gn gen out/Release-arm64 '' @ gn_args ''arm64'') (Some env) None,
             Run (''gn gen out/Release-x86 '' @ gn_args ''x86'') (Some env) None,
             Run (''gn gen out/Release-x64 '' @ gn_args ''x64'') (Some env) None,
             Run ''ninja -C out/Release-arm libwebrtc libjingle_peerconnection_so'' (Some env) None,
             Run ''ninja -C out/Release-arm64 libwebrtc libjingle_peerconnection_so'' (Some env) None,
             Run ''ninja -C out/Release-x86 libwebrtc libjingle_peerconnection_so'' (Some env) None,
             Run ''ninja -C out/Release-x64 libwebrtc libjingle_peerconnection_so'' (Some env) None,
             Rmtree build_dir,
             Makedirs build_dir,
             Copy ''out/Release-arm/lib.java/sdk/android/libwebrtc.jar'' build_dir,
             Makedirs (path_join build_dir [''armeabi-v7a'']),
             Copy ''out/Release-arm/libjingle_peerconnection_so.so''
               (path_join build_dir [''armeabi-v7a'']),
             Makedirs (path_join build_dir [''arm64-v8a'']),
             Copy ''out/Release-arm64/libjingle_peerconnection_so.so''
               (path_join build_dir [''arm64-v8a'']),
             Makedirs (path_join build_dir [''x86'']),
             Copy ''out/Release-x86/libjingle_peerconnection_so.so'' (path_join build_dir [''x86'']),
             Makedirs (path_join build_dir [''x86_64'']),
             Copy ''out/Release-x64/libjingle_peerconnection_so.so''
               (path_join build_dir [''x86_64'']),
             Run ''zip -r android-webrtc.zip *'' None (Some build_dir)]))) \<and>
    (startswith target_dir ''/'' \<and> sim_wf v \<and>
     build sim_os target_dir ''android'' False (start v) = (t', Continue) \<longrightarrow>
      (let build_dir = path_join target_dir [''build'', ''android''] in
       \<exists>pre r wz.
         trace t' = pre @ [Print ''Running cmd: zip -r android-webrtc.zip *'',
                           Run ''zip -r android-webrtc.zip *'' None (Some build_dir),
                           Done r] \<and>
         replay sim_os pre v = Some wz \<and>
         check_call sim_os ''zip -r android-webrtc.zip *'' None (Some build_dir) wz
           = (world t', r) \<and>
         below_dirs build_dir wz =
           {build_dir, path_join build_dir [''armeabi-v7a''],
            path_join build_dir [''arm64-v8a''],
            path_join build_dir [''x86''], path_join build_dir [''x86_64'']} \<and>
         below_files build_dir wz =
           {path_join build_dir [''libwebrtc.jar''],
            path_join build_dir [''armeabi-v7a'', ''libjingle_peerconnection_so.so''],
            path_join build_dir [''arm64-v8a'', ''libjingle_peerconnection_so.so''],
            path_join build_dir [''x86'', ''libjingle_peerconnection_so.so''],
            path_join build_dir [''x86_64'', ''libjingle_peerconnection_so.so'']}))\<close>
proof (intro conjI impI)
  assume run: "build os target_dir ''android'' False (start w) = (s', Continue)"
  have command: "logged os (sh os cmd env cwd)" for cmd env cwd
    unfolding logged_def sh_def Let_def emit_def
    by (auto split: prod.splits outcome.splits if_splits)
  have "logged os (build os target_dir ''android'' False)"
    unfolding build_def gn_gen_steps_def ninja_steps_def package_android_def package_ios_def
      stage_android_def
    by (intro logged_fs_rules command)
  with run show "replay os (trace s') w = Some (world s')"
    unfolding logged_def start_def by fastforce
next
  assume "build os target_dir ''android'' False (start w) = (s', Continue)"
  then show \<open>\<exists>env. tools_env (os_environ os w) (path_join target_dir [''depot_tools''])
            (path_join target_dir [''webrtc'', ''android'', ''src'']) ''android'' = Some env \<and>
      filter is_effect (trace s') =
        (let build_dir = path_join target_dir [''build'', ''android''];
             gn_args = (\<lambda>cpu.
               ''--args='' @ [CHR 0x27]
               @ ''rtc_libvpx_build_vp9=true rtc_enable_protobuf=false rtc_include_tests=false is_debug=false''
               @ '' target_cpu="'' @ cpu
               @ ''" target_os="android" extra_ldflags=["-Wl,-z,common-page-size=4096","-Wl,-z,max-page-size=16384"]''
               @ [CHR 0x27])
         in [Chdir (path_join target_dir [''webrtc'', ''android'', ''src'']),
             Rmtree ''out'',
             Run (''gn gen out/Release-arm '' @ gn_args ''arm'') (Some env) None,
             Run (''gn gen out/Release-arm64 '' @ gn_args ''arm64'') (Some env) None,
             Run (''gn gen out/Release-x86 '' @ gn_args ''x86'') (Some env) None,
             Run (''gn gen out/Release-x64 '' @ gn_args ''x64'') (Some env) None,
             Run ''ninja -C out/Release-arm libwebrtc libjingle_peerconnection_so'' (Some env) None,
             Run ''ninja -C out/Release-arm64 libwebrtc libjingle_peerconnection_so'' (Some env) None,
             Run ''ninja -C out/Release-x86 libwebrtc libjingle_peerconnection_so'' (Some env) None,
             Run ''ninja -C out/Release-x64 libwebrtc libjingle_peerconnection_so'' (Some env) None,
             Rmtree build_dir,
             Makedirs build_dir,
             Copy ''out/Release-arm/lib.java/sdk/android/libwebrtc.jar'' build_dir,
             Makedirs (path_join build_dir [''armeabi-v7a'']),
             Copy ''out/Release-arm/libjingle_peerconnection_so.so''
               (path_join build_dir [''armeabi-v7a'']),
             Makedirs (path_join build_dir [''arm64-v8a'']),
             Copy ''out/Release-arm64/libjingle_peerconnection_so.so''
               (path_join build_dir [''arm64-v8a'']),
             Makedirs (path_join build_dir [''x86'']),
             Copy ''out/Release-x86/libjingle_peerconnection_so.so'' (path_join build_dir [''x86'']),
             Makedirs (path_join build_dir [''x86_64'']),
             Copy ''out/Release-x64/libjingle_peerconnection_so.so''
               (path_join build_dir [''x86_64'']),
             Run ''zip -r android-webrtc.zip *'' None (Some build_dir)])\<close>
    by (rule android_release_effects)
next
  assume h: "startswith target_dir ''/'' \<and> sim_wf v \<and>
     build sim_os target_dir ''android'' False (start v) = (t', Continue)"
  then have "startswith target_dir ''/''" "sim_wf v"
    "build sim_os target_dir ''android'' False (start v) = (t', Continue)" by simp_all
  from sim_zipped_output[OF this]
  show "let build_dir = path_join target_dir [''build'', ''android''] in
       \<exists>pre r wz.
         trace t' = pre @ [Print ''Running cmd: zip -r android-webrtc.zip *'',
                           Run ''zip -r android-webrtc.zip *'' None (Some build_dir),
                           Done r] \<and>
         replay sim_os pre v = Some wz \<and>
         check_call sim_os ''zip -r android-webrtc.zip *'' None (Some build_dir) wz
           = (world t', r) \<and>
         below_dirs build_dir wz =
           {build_dir, path_join build_dir [''armeabi-v7a''],
            path_join build_dir [''arm64-v8a''],
            path_join build_dir [''x86''], path_join build_dir [''x86_64'']} \<and>
         below_files build_dir wz =
           {path_join build_dir [''libwebrtc.jar''],
            path_join build_dir [''armeabi-v7a'', ''libjingle_peerconnection_so.so''],
            path_join build_dir [''arm64-v8a'', ''libjingle_peerconnection_so.so''],
            path_join build_dir [''x86'', ''libjingle_peerconnection_so.so''],
            path_join build_dir [''x86_64'', ''libjingle_peerconnection_so.so'']}"
    unfolding Let_def .
qed

text \<open>
  An instance on the in-memory machine, where an earlier build left a zip file and a
  directory \<open>mips\<close> in the output directory: a Release build for Android with a
  toolchain that leaves the Java archive and the four shared objects completes with 22
  effects, its trace replays to the world it ends in, \<open>zip\<close> is called on an output
  directory with the four ABI directories, one shared object in each, and the Java
  archive, and the output directory holds exactly these at the end, nothing of the
  earlier build.
\<close>

theorem C6_android_release_build_witness:
  "snd (build sim_os ''/w/build_webrtc'' ''android'' False
          (start android_world)) = Continue \<and>
   length (filter is_effect (trace (fst (build sim_os ''/w/build_webrtc'' ''android'' False
             (start android_world))))) = 22 \<and>
   replay sim_os
     (trace (fst (build sim_os ''/w/build_webrtc'' ''android'' False
                    (start android_world))))
     android_world
     = Some (world (fst (build sim_os ''/w/build_webrtc'' ''android'' False
                           (start android_world)))) \<and>
   startswith ''/w/build_webrtc'' ''/'' \<and>
   sim_wf android_world \<and>
   (\<exists>pre r wz.
      trace (fst (build sim_os ''/w/build_webrtc'' ''android'' False
                    (start android_world)))
        = pre @ [Print ''Running cmd: zip -r android-webrtc.zip *'',
                 Run ''zip -r android-webrtc.zip *'' None
                   (Some ''/w/build_webrtc/build/android''),
                 Done r] \<and>
      replay sim_os pre android_world = Some wz \<and>
      check_call sim_os ''zip -r android-webrtc.zip *'' None
          (Some ''/w/build_webrtc/build/android'') wz
        = (world (fst (build sim_os ''/w/build_webrtc'' ''android'' False
                         (start android_world))), r) \<and>
      below_dirs ''/w/build_webrtc/build/android'' wz =
        {''/w/build_webrtc/build/android'',
         ''/w/build_webrtc/build/android/armeabi-v7a'',
         ''/w/build_webrtc/build/android/arm64-v8a'',
         ''/w/build_webrtc/build/android/x86'',
         ''/w/build_webrtc/build/android/x86_64''} \<and>
      below_files ''/w/build_webrtc/build/android'' wz =
        {''/w/build_webrtc/build/android/libwebrtc.jar'',
         ''/w/build_webrtc/build/android/armeabi-v7a/libjingle_peerconnection_so.so'',
         ''/w/build_webrtc/build/android/arm64-v8a/libjingle_peerconnection_so.so'',
         ''/w/build_webrtc/build/android/x86/libjingle_peerconnection_so.so'',
         ''/w/build_webrtc/build/android/x86_64/libjingle_peerconnection_so.so''}) \<and>
   set (filter (under ''/w/build_webrtc/build/android'')
          (sim_dirs (world (fst (build sim_os ''/w/build_webrtc'' ''android'' False
             (start android_world)))))) =
     set [''/w/build_webrtc/build/android'',
          ''/w/build_webrtc/build/android/armeabi-v7a'',
          ''/w/build_webrtc/build/android/arm64-v8a'',
          ''/w/build_webrtc/build/android/x86'',
          ''/w/build_webrtc/build/android/x86_64''] \<and>
   set (filter (under ''/w/build_webrtc/build/android'')
          (sim_files (world (fst (build sim_os ''/w/build_webrtc'' ''android'' False
             (start android_world)))))) =
     set [''/w/build_webrtc/build/android/libwebrtc.jar'',
          ''/w/build_webrtc/build/android/armeabi-v7a/libjingle_peerconnection_so.so'',
          ''/w/build_webrtc/build/android/arm64-v8a/libjingle_peerconnection_so.so'',
          ''/w/build_webrtc/build/android/x86/libjingle_peerconnection_so.so'',
          ''/w/build_webrtc/build/android/x86_64/libjingle_peerconnection_so.so'']"
proof -
  let ?R = "build sim_os ''/w/build_webrtc'' ''android'' False (start android_world)"
  let ?bd = "''/w/build_webrtc/build/android''"
  note inst = C6_android_release_build
    [of sim_os "''/w/build_webrtc''" android_world "fst ?R" android_world "fst ?R"]
  have c: "snd ?R = Continue" by code_simp
  then have r: "?R = (fst ?R, Continue)" by (metis prod.collapse)
  have len: "length (filter is_effect (trace (fst ?R))) = 22"
    using inst r by (auto simp: Let_def)
  have rp: "replay sim_os (trace (fst ?R)) android_world = Some (world (fst ?R))"
    using inst r by blast
  have dirs:
    "set (filter (under ?bd) (sim_dirs (world (fst ?R)))) =
     set [''/w/build_webrtc/build/android'',
          ''/w/build_webrtc/build/android/armeabi-v7a'',
          ''/w/build_webrtc/build/android/arm64-v8a'',
          ''/w/build_webrtc/build/android/x86'',
          ''/w/build_webrtc/build/android/x86_64'']"
    by code_simp
  have files:
    "set (filter (under ?bd) (sim_files (world (fst ?R)))) =
     set [''/w/build_webrtc/build/android/libwebrtc.jar'',
          ''/w/build_webrtc/build/android/armeabi-v7a/libjingle_peerconnection_so.so'',
          ''/w/build_webrtc/build/android/arm64-v8a/libjingle_peerconnection_so.so'',
          ''/w/build_webrtc/build/android/x86/libjingle_peerconnection_so.so'',
          ''/w/build_webrtc/build/android/x86_64/libjingle_peerconnection_so.so'']"
    by code_simp
  have pj: "path_join ''/w/build_webrtc'' [''build'', ''android''] = ?bd" by code_simp
  have names:
    "path_join ?bd [''armeabi-v7a''] = ''/w/build_webrtc/build/android/armeabi-v7a''"
    "path_join ?bd [''arm64-v8a''] = ''/w/build_webrtc/build/android/arm64-v8a''"
    "path_join ?bd [''x86''] = ''/w/build_webrtc/build/android/x86''"
    "path_join ?bd [''x86_64''] = ''/w/build_webrtc/build/android/x86_64''"
    "path_join ?bd [''libwebrtc.jar''] = ''/w/build_webrtc/build/android/libwebrtc.jar''"
    "path_join ?bd [''armeabi-v7a'', ''libjingle_peerconnection_so.so'']
       = ''/w/build_webrtc/build/android/armeabi-v7a/libjingle_peerconnection_so.so''"
    "path_join ?bd [''arm64-v8a'', ''libjingle_peerconnection_so.so'']
       = ''/w/build_webrtc/build/android/arm64-v8a/libjingle_peerconnection_so.so''"
    "path_join ?bd [''x86'', ''libjingle_peerconnection_so.so'']
       = ''/w/build_webrtc/build/android/x86/libjingle_peerconnection_so.so''"
    "path_join ?bd [''x86_64'', ''libjingle_peerconnection_so.so'']
       = ''/w/build_webrtc/build/android/x86_64/libjingle_peerconnection_so.so''"
    by code_simp+
  have a: "startswith ''/w/build_webrtc'' ''/''" by code_simp
  have wf: "sim_wf android_world" by code_simp
  have zipped:
    "\<exists>pre r wz.
      trace (fst ?R) = pre @ [Print ''Running cmd: zip -r android-webrtc.zip *'',
                 Run ''zip -r android-webrtc.zip *'' None (Some ?bd), Done r] \<and>
      replay sim_os pre android_world = Some wz \<and>
      check_call sim_os ''zip -r android-webrtc.zip *'' None (Some ?bd) wz
        = (world (fst ?R), r) \<and>
      below_dirs ?bd wz =
        {?bd, path_join ?bd [''armeabi-v7a''], path_join ?bd [''arm64-v8a''],
         path_join ?bd [''x86''], path_join ?bd [''x86_64'']} \<and>
      below_files ?bd wz =
        {path_join ?bd [''libwebrtc.jar''],
         path_join ?bd [''armeabi-v7a'', ''libjingle_peerconnection_so.so''],
         path_join ?bd [''arm64-v8a'', ''libjingle_peerconnection_so.so''],
         path_join ?bd [''x86'', ''libjingle_peerconnection_so.so''],
         path_join ?bd [''x86_64'', ''libjingle_peerconnection_so.so'']}"
    using inst a wf r unfolding pj Let_def by blast
  show ?thesis
    using c len rp a wf dirs files zipped unfolding names by blast
qed

text \<open>
  C7. For both modes and every Android architecture of the fixed list, the build runs
  \<open>gn gen\<close> with the argument string written out here: the standard arguments (among
  them \<open>rtc_include_tests=false\<close>, \<open>is_debug\<close>, \<open>target_cpu\<close>), \<open>target_os="android"\<close>
  and \<open>extra_ldflags\<close> with \<open>-Wl,-z,common-page-size=4096\<close> and
  \<open>-Wl,-z,max-page-size=16384\<close>.
\<close>

theorem C7_android_gn_gen:
  \<open>gn_gen_steps os ''android'' (if debug then ''Debug'' else ''Release'') debug env =
     map (\<lambda>cpu.
            sh os
              (''gn gen out/'' @ (if debug then ''Debug'' else ''Release'') @ ''-'' @ cpu
               @ '' --args='' @ [CHR 0x27]
               @ ''rtc_libvpx_build_vp9=true rtc_enable_protobuf=false rtc_include_tests=false is_debug=''
               @ (if debug then ''true'' else ''false'') @ '' target_cpu="'' @ cpu
               @ ''" target_os="android" extra_ldflags=["-Wl,-z,common-page-size=4096","-Wl,-z,max-page-size=16384"]''
               @ [CHR 0x27])
              (Some env) None)
       [''arm'', ''arm64'', ''x86'', ''x64'']\<close>
  by (simp add: gn_gen_steps_def android_gn_gen_cmd_text ANDROID_BUILD_CPUS_def)

text \<open>
  C8 (as amended). When KeyboardInterrupt is raised while an external command runs,
  \<open>sh\<close> passes over it and returns normally: the interruption is not propagated as an
  error, the process does not exit, and the statements that follow \<open>sh\<close> are executed
  as after a command that succeeded.
\<close>

theorem C8_interrupt_continues:
  assumes "check_call os cmd env cwd (world s) = (w', Interrupted)"
  shows "sh os cmd env cwd s =
           (s\<lparr>world := w',
              trace := trace s @
                [Print (''Running cmd: '' @ cmd), Run cmd env cwd, Done Interrupted]\<rparr>,
            Continue)
         \<and> seqs (sh os cmd env cwd # rest) s =
             seqs rest (s\<lparr>world := w',
               trace := trace s @
                 [Print (''Running cmd: '' @ cmd), Run cmd env cwd, Done Interrupted]\<rparr>)"
  using assms by (simp add: sh_def Let_def emit_def)

text \<open>An instance: \<open>gclient sync\<close> is interrupted on the in-memory machine.\<close>

theorem C8_interrupt_continues_witness:
  "sh sim_os ''gclient sync'' None None
     (start (demo_world\<lparr>sim_script := [(Interrupted, [], [])]\<rparr>)) =
   ((start (demo_world\<lparr>sim_script := [(Interrupted, [], [])]\<rparr>))
      \<lparr>world := demo_world,
       trace := trace (start (demo_world\<lparr>sim_script := [(Interrupted, [], [])]\<rparr>)) @
         [Print (''Running cmd: '' @ ''gclient sync''), Run ''gclient sync'' None None,
          Done Interrupted]\<rparr>,
    Continue)"
proof -
  have "check_call sim_os ''gclient sync'' None None
          (world (start (demo_world\<lparr>sim_script := [(Interrupted, [], [])]\<rparr>))) =
        (demo_world, Interrupted)"
    by code_simp
  from C8_interrupt_continues[OF this, of "[]"] show ?thesis by (rule conjunct1)
qed

text \<open>
  The claim as stated fails: with \<open>/w --setup --ios\<close>, the first command
  (\<open>git clone\<close>) is interrupted, and the run goes on: it fetches, syncs and exits with
  code 0.
\<close>

theorem C8_steps_after_interrupt_counterexample:
  "take 6 (trace (fst (main sim_os
      (demo_args\<lparr>args_setup := True, args_ios := True, args_android := False\<rparr>)
      (start (demo_world\<lparr>sim_script := [(Interrupted, [], [])]\<rparr>))))) =
     [Makedirs ''/w/build_webrtc'',
      Chdir ''/w/build_webrtc'',
      Print ''Fetching Chromium depot_tools...'',
      Print ''Running cmd: git clone https://chromium.googlesource.com/chromium/tools/depot_tools.git'',
      Run ''git clone https://chromium.googlesource.com/chromium/tools/depot_tools.git'' None None,
      Done Interrupted] \<and>
   commands (drop 6 (trace (fst (main sim_os
      (demo_args\<lparr>args_setup := True, args_ios := True, args_android := False\<rparr>)
      (start (demo_world\<lparr>sim_script := [(Interrupted, [], [])]\<rparr>)))))) =
     [''fetch --nohooks webrtc_ios'', ''gclient sync''] \<and>
   snd (main sim_os
      (demo_args\<lparr>args_setup := True, args_ios := True, args_android := False\<rparr>)
      (start (demo_world\<lparr>sim_script := [(Interrupted, [], [])]\<rparr>))) = Exit 0"
  by code_simp

text \<open>
  C9. Within one run the names of the build-output directories are pairwise distinct:
  the three iOS descriptors and the two macOS architectures (processed together in an
  iOS run) give five distinct names, the four Android CPUs give four, for any mode; and
  the names of the two modes do not meet either, so a name determines the mode and the
  architecture key.
\<close>

theorem C9_out_dirs_distinct:
  "those (map split_item IOS_BUILD_ARCHS) =
     Some [(''device'', ''arm64''), (''simulator'', ''arm64''), (''simulator'', ''x64'')] \<and>
   distinct (map (\<lambda>(tenv, arch). ios_gn_out_dir build_type tenv arch)
               [(''device'', ''arm64''), (''simulator'', ''arm64''), (''simulator'', ''x64'')]
             @ map (macos_gn_out_dir build_type) MACOS_BUILD_ARCHS) \<and>
   distinct (map (android_gn_out_dir build_type) ANDROID_BUILD_CPUS) \<and>
   distinct (concat (map (\<lambda>build_type.
               map (\<lambda>(tenv, arch). ios_gn_out_dir build_type tenv arch)
                 [(''device'', ''arm64''), (''simulator'', ''arm64''), (''simulator'', ''x64'')]
               @ map (macos_gn_out_dir build_type) MACOS_BUILD_ARCHS) [''Debug'', ''Release''])) \<and>
   distinct (concat (map (\<lambda>build_type. map (android_gn_out_dir build_type) ANDROID_BUILD_CPUS)
               [''Debug'', ''Release'']))"
  by (simp add: IOS_BUILD_ARCHS_def MACOS_BUILD_ARCHS_def ANDROID_BUILD_CPUS_def split_item_def
        ios_gn_out_dir_def macos_gn_out_dir_def android_gn_out_dir_def)

text \<open>
  C10. \<open>mkdirp\<close> completes when \<open>os.makedirs\<close> succeeds and when it raises EEXIST (the
  directory is already there), and \<open>rmr\<close> completes when \<open>shutil.rmtree\<close> succeeds and
  when it raises ENOENT (the path is not there); in both cases the helper changes
  nothing itself and the statement after it is executed. Any other OSError is raised
  again. This is the behaviour of every call of the two helpers: the removal of \<open>out\<close>,
  the removal and creation of the output directory in \<open>build\<close>, and the directory
  creations of \<open>setup\<close>.
\<close>

theorem C10_mkdirp_rmr:
  "(os_makedirs os path (world s) = (w', None) \<longrightarrow>
      mkdirp os path s = (s\<lparr>world := w', trace := trace s @ [Makedirs path]\<rparr>, Continue)) \<and>
   (os_makedirs os path (world s) = (w', Some EEXIST) \<longrightarrow>
      mkdirp os path s = (s\<lparr>world := w', trace := trace s @ [Makedirs path]\<rparr>, Continue) \<and>
      seqs (mkdirp os path # rest) s =
        seqs rest (s\<lparr>world := w', trace := trace s @ [Makedirs path]\<rparr>)) \<and>
   (os_makedirs os path (world s) = (w', Some e) \<and> e \<noteq> EEXIST \<longrightarrow>
      mkdirp os path s =
        (s\<lparr>world := w', trace := trace s @ [Makedirs path]\<rparr>, Raise (OSError e))) \<and>
   (shutil_rmtree os path (world s) = (w', None) \<longrightarrow>
      rmr os path s = (s\<lparr>world := w', trace := trace s @ [Rmtree path]\<rparr>, Continue)) \<and>
   (shutil_rmtree os path (world s) = (w', Some ENOENT) \<longrightarrow>
      rmr os path s = (s\<lparr>world := w', trace := trace s @ [Rmtree path]\<rparr>, Continue) \<and>
      seqs (rmr os path # rest) s =
        seqs rest (s\<lparr>world := w', trace := trace s @ [Rmtree path]\<rparr>)) \<and>
   (shutil_rmtree os path (world s) = (w', Some e) \<and> e \<noteq> ENOENT \<longrightarrow>
      rmr os path s =
        (s\<lparr>world := w', trace := trace s @ [Rmtree path]\<rparr>, Raise (OSError e)))"
  by (simp add: mkdirp_def rmr_def emit_def)

text \<open>
  Instances on the in-memory machine: \<open>mkdirp\<close> of a directory that exists and \<open>rmr\<close>
  of a path that does not exist complete with the world unchanged; below a regular
  file, \<open>mkdirp\<close> raises ENOTDIR, and so does \<open>rmr\<close> of a regular file.
\<close>

theorem C10_mkdirp_rmr_witness:
  "mkdirp sim_os ''/w/build_webrtc'' (start demo_world) =
     ((start demo_world)\<lparr>world := demo_world,
        trace := trace (start demo_world) @ [Makedirs ''/w/build_webrtc'']\<rparr>, Continue) \<and>
   rmr sim_os ''out'' (start demo_world) =
     ((start demo_world)\<lparr>world := demo_world,
        trace := trace (start demo_world) @ [Rmtree ''out'']\<rparr>, Continue) \<and>
   mkdirp sim_os ''/w/f/x'' (start (demo_world\<lparr>sim_files := [''/w/f'']\<rparr>)) =
     ((start (demo_world\<lparr>sim_files := [''/w/f'']\<rparr>))
        \<lparr>world := demo_world\<lparr>sim_files := [''/w/f'']\<rparr>,
         trace := trace (start (demo_world\<lparr>sim_files := [''/w/f'']\<rparr>)) @ [Makedirs ''/w/f/x'']\<rparr>,
      Raise (OSError ENOTDIR)) \<and>
   rmr sim_os ''/w/f'' (start (demo_world\<lparr>sim_files := [''/w/f'']\<rparr>)) =
     ((start (demo_world\<lparr>sim_files := [''/w/f'']\<rparr>))
        \<lparr>world := demo_world\<lparr>sim_files := [''/w/f'']\<rparr>,
         trace := trace (start (demo_world\<lparr>sim_files := [''/w/f'']\<rparr>)) @ [Rmtree ''/w/f'']\<rparr>,
      Raise (OSError ENOTDIR))"
proof -
  let ?s = "start demo_world"
  let ?wf = "demo_world\<lparr>sim_files := [''/w/f'']\<rparr>"
  let ?sf = "start ?wf"
  have m1: "os_makedirs sim_os ''/w/build_webrtc'' (world ?s) = (demo_world, Some EEXIST)"
    by code_simp
  have r1: "shutil_rmtree sim_os ''out'' (world ?s) = (demo_world, Some ENOENT)"
    by code_simp
  have m2: "os_makedirs sim_os ''/w/f/x'' (world ?sf) = (?wf, Some ENOTDIR) \<and> ENOTDIR \<noteq> EEXIST"
    by code_simp
  have r2: "shutil_rmtree sim_os ''/w/f'' (world ?sf) = (?wf, Some ENOTDIR) \<and> ENOTDIR \<noteq> ENOENT"
    by code_simp
  have "mkdirp sim_os ''/w/build_webrtc'' ?s =
          (?s\<lparr>world := demo_world, trace := trace ?s @ [Makedirs ''/w/build_webrtc'']\<rparr>, Continue)"
    using C10_mkdirp_rmr[of sim_os "''/w/build_webrtc''" ?s demo_world "[]" EEXIST] m1 by blast
  moreover have "rmr sim_os ''out'' ?s =
          (?s\<lparr>world := demo_world, trace := trace ?s @ [Rmtree ''out'']\<rparr>, Continue)"
    using C10_mkdirp_rmr[of sim_os "''out''" ?s demo_world "[]" ENOENT] r1 by blast
  moreover have "mkdirp sim_os ''/w/f/x'' ?sf =
          (?sf\<lparr>world := ?wf, trace := trace ?sf @ [Makedirs ''/w/f/x'']\<rparr>, Raise (OSError ENOTDIR))"
    using C10_mkdirp_rmr[of sim_os "''/w/f/x''" ?sf ?wf "[]" ENOTDIR] m2 by blast
  moreover have "rmr sim_os ''/w/f'' ?sf =
          (?sf\<lparr>world := ?wf, trace := trace ?sf @ [Rmtree ''/w/f'']\<rparr>, Raise (OSError ENOTDIR))"
    using C10_mkdirp_rmr[of sim_os "''/w/f''" ?sf ?wf "[]" ENOTDIR] r2 by blast
  ultimately show ?thesis by blast
qed

end
